theory Spec2Isabelle
  imports Main
begin

section \<open>Python values and exceptions\<close>

text \<open>
  The module works on parsed JSON documents and on Python strings. A parsed JSON document
  is a value of \<open>json\<close>: \<open>None\<close>, a bool, an int, a str, a list, or a dict whose keys
  are strings, kept in insertion order as Python's dict does (the keys of one dict are
  pairwise different). JSON numbers are integers here.

  The strings of a JSON document, of a URL, of a header, of a path and of a log record
  are only compared, concatenated and searched: such a \<open>str\<close> is kept as the bytes of
  its UTF-8 encoding. The user name and the password, which the module encodes itself
  with \<open>bytes(..., 'utf-8')\<close>, are kept as the code points of the \<open>str\<close>.
\<close>

datatype json =
    JNull
  | JBool bool
  | JInt int
  | JStr string
  | JArr "json list"
  | JObj "(string \<times> json) list"

text \<open>
  The exceptions the module can meet. \<open>SystemExit\<close> is what the builtin \<open>exit()\<close>
  raises; no handler of the module catches it, so it ends the process.
\<close>

datatype error =
    JSONDecodeError
  | KeyError
  | IndexError
  | TypeError
  | AttributeError
  | UnboundLocalError
  | OSError
  | UnicodeEncodeError
  | SystemExit

definition bind_e :: "error + 'a \<Rightarrow> ('a \<Rightarrow> error + 'b) \<Rightarrow> error + 'b" where
  "bind_e m f = (case m of Inl e \<Rightarrow> Inl e | Inr x \<Rightarrow> f x)"

section \<open>Python operations on JSON values\<close>

text \<open>Truth value testing, as \<open>if v:\<close> does it.\<close>

fun truthy :: "json \<Rightarrow> bool" where
  "truthy JNull = False"
| "truthy (JBool b) = b"
| "truthy (JInt i) = (i \<noteq> 0)"
| "truthy (JStr s) = (s \<noteq> [])"
| "truthy (JArr xs) = (xs \<noteq> [])"
| "truthy (JObj kvs) = (kvs \<noteq> [])"

text \<open>
  The characters of a str: a byte that is not a UTF-8 continuation byte starts a new
  character.
\<close>

definition utf8_cont :: "char \<Rightarrow> bool" where
  "utf8_cont c = (128 \<le> (of_char c :: nat) \<and> (of_char c :: nat) < 192)"

function utf8_chars :: "string \<Rightarrow> string list" where
  "utf8_chars [] = []"
| "utf8_chars (c # cs) = (c # takeWhile utf8_cont cs) # utf8_chars (dropWhile utf8_cont cs)"
  by pat_completeness auto
termination
  by (relation "measure length") (auto simp: less_Suc_eq_le length_dropWhile_le)

text \<open>\<open>xs[i]\<close> on a sequence: a negative index counts from the end.\<close>

definition seq_index :: "'a list \<Rightarrow> int \<Rightarrow> error + 'a" where
  "seq_index xs i =
     (if 0 \<le> i \<and> i < int (length xs) then Inr (xs ! nat i)
      else if i < 0 \<and> - int (length xs) \<le> i then Inr (xs ! nat (int (length xs) + i))
      else Inl IndexError)"

text \<open>\<open>v[k]\<close> for a str \<open>k\<close>: only a dict can be subscripted by a str.\<close>

fun getitem_str :: "json \<Rightarrow> string \<Rightarrow> error + json" where
  "getitem_str (JObj kvs) k = (case map_of kvs k of None \<Rightarrow> Inl KeyError | Some v \<Rightarrow> Inr v)"
| "getitem_str v k = Inl TypeError"

text \<open>
  \<open>v[i]\<close> for an int \<open>i\<close>. The keys of a JSON dict are strings, so an int is never
  among them.
\<close>

fun getitem_int :: "json \<Rightarrow> int \<Rightarrow> error + json" where
  "getitem_int (JArr xs) i = seq_index xs i"
| "getitem_int (JStr s) i = bind_e (seq_index (utf8_chars s) i) (\<lambda>c. Inr (JStr c))"
| "getitem_int (JObj kvs) i = Inl KeyError"
| "getitem_int v i = Inl TypeError"

text \<open>The elements a \<open>for\<close> loop or a comprehension runs over.\<close>

fun py_iter :: "json \<Rightarrow> error + json list" where
  "py_iter (JArr xs) = Inr xs"
| "py_iter (JObj kvs) = Inr (map (\<lambda>kv. JStr (fst kv)) kvs)"
| "py_iter (JStr s) = Inr (map JStr (utf8_chars s))"
| "py_iter v = Inl TypeError"

text \<open>\<open>v.keys()\<close>: only a dict has the method.\<close>

fun py_keys :: "json \<Rightarrow> error + string list" where
  "py_keys (JObj kvs) = Inr (map fst kvs)"
| "py_keys v = Inl AttributeError"

text \<open>\<open>v.text\<close> on a parsed JSON value: none of \<open>dict\<close>, \<open>list\<close>, \<open>str\<close>, \<open>int\<close>,
  \<open>bool\<close> and \<open>NoneType\<close> has the attribute.\<close>

definition getattr_text :: "json \<Rightarrow> error + string" where
  "getattr_text v = Inl AttributeError"

text \<open>
  \<open>d[k] = v\<close> on a dict: an existing key keeps its place and gets the new value, a new
  key goes to the end. The first argument is the equality of keys.
\<close>

fun dict_set_by :: "('k \<Rightarrow> 'k \<Rightarrow> bool) \<Rightarrow> ('k \<times> 'v) list \<Rightarrow> 'k \<Rightarrow> 'v \<Rightarrow> ('k \<times> 'v) list" where
  "dict_set_by eq [] k v = [(k, v)]"
| "dict_set_by eq ((k', v') # d) k v =
     (if eq k' k then (k', v) # d else (k', v') # dict_set_by eq d k v)"

definition dict_set :: "(string \<times> 'v) list \<Rightarrow> string \<Rightarrow> 'v \<Rightarrow> (string \<times> 'v) list" where
  "dict_set d k v = dict_set_by (=) d k v"

fun setitem_str :: "json \<Rightarrow> string \<Rightarrow> json \<Rightarrow> error + json" where
  "setitem_str (JObj kvs) k v = Inr (JObj (dict_set kvs k v))"
| "setitem_str w k v = Inl TypeError"

text \<open>
  A dict whose keys are any hashable JSON values (the result of the codelist reader).
  Lists and dicts are unhashable; \<open>True\<close> and \<open>1\<close>, and \<open>False\<close> and \<open>0\<close>, are the
  same key.
\<close>

fun hashable :: "json \<Rightarrow> bool" where
  "hashable (JArr xs) = False"
| "hashable (JObj kvs) = False"
| "hashable v = True"

fun key_eq :: "json \<Rightarrow> json \<Rightarrow> bool" where
  "key_eq (JBool b) (JInt i) = (i = (if b then 1 else 0))"
| "key_eq (JInt i) (JBool b) = (i = (if b then 1 else 0))"
| "key_eq a b = (a = b)"

type_synonym pydict = "(json \<times> json) list"

definition pydict_set :: "pydict \<Rightarrow> json \<Rightarrow> json \<Rightarrow> error + pydict" where
  "pydict_set d k v = (if hashable k then Inr (dict_set_by key_eq d k v) else Inl TypeError)"

fun dict_lookup :: "pydict \<Rightarrow> json \<Rightarrow> json option" where
  "dict_lookup [] k = None"
| "dict_lookup ((k', v) # d) k = (if key_eq k' k then Some v else dict_lookup d k)"

text \<open>No two keys of the list are the same key.\<close>

fun keys_distinct :: "json list \<Rightarrow> bool" where
  "keys_distinct [] = True"
| "keys_distinct (k # ks) = (list_all (\<lambda>k'. \<not> key_eq k' k) ks \<and> keys_distinct ks)"

text \<open>A comprehension \<open>[f(x) for x in xs]\<close>: the first failing element raises.\<close>

fun collect :: "('a \<Rightarrow> error + 'b) \<Rightarrow> 'a list \<Rightarrow> error + 'b list" where
  "collect f [] = Inr []"
| "collect f (x # xs) =
     (case f x of
        Inl e \<Rightarrow> Inl e
      | Inr y \<Rightarrow> (case collect f xs of Inl e \<Rightarrow> Inl e | Inr ys \<Rightarrow> Inr (y # ys)))"

text \<open>\<open>needle in hay\<close> on two strings: \<open>needle\<close> occurs as a substring.\<close>

fun contains :: "string \<Rightarrow> string \<Rightarrow> bool" where
  "contains needle [] = (needle = [])"
| "contains needle (c # cs) =
     (take (length needle) (c # cs) = needle \<or> contains needle cs)"

text \<open>\<open>os.path.join\<close> on a POSIX system.\<close>

definition path_join2 :: "string \<Rightarrow> string \<Rightarrow> string" where
  "path_join2 path b =
     (if take 1 b = ''/'' then b
      else if path = [] \<or> last path = CHR ''/'' then path @ b
      else path @ ''/'' @ b)"

definition os_path_join :: "string \<Rightarrow> string list \<Rightarrow> string" where
  "os_path_join a ps = foldl path_join2 a ps"

section \<open>Base64\<close>

text \<open>
  \<open>base64.b64encode\<close> on bytes, with the alphabet and the padding of RFC 4648, and the
  decoding of what is padded base64 over that alphabet (\<open>base64.b64decode\<close>;
  anything else is rejected here with \<open>None\<close>).
\<close>

definition b64_alphabet :: string where
  "b64_alphabet = ''ABCDEFGHIJKLMNOPQRSTUVWXYZabcdefghijklmnopqrstuvwxyz0123456789+/''"

definition b64_char :: "nat \<Rightarrow> char" where
  "b64_char n = b64_alphabet ! n"

fun index_of :: "'a \<Rightarrow> 'a list \<Rightarrow> nat option" where
  "index_of x [] = None"
| "index_of x (y # ys) =
     (if x = y then Some 0 else map_option Suc (index_of x ys))"

definition b64_index :: "char \<Rightarrow> nat option" where
  "b64_index c = index_of c b64_alphabet"

text \<open>
  Three bytes become four characters of six bits each; a last group of one or two bytes
  is padded with \<open>=\<close>.
\<close>

fun b64encode :: "string \<Rightarrow> string" where
  "b64encode [] = []"
| "b64encode [a] =
     (let x = (of_char a :: nat)
      in [b64_char (x div 4), b64_char ((x mod 4) * 16), CHR ''='', CHR ''=''])"
| "b64encode [a, b] =
     (let x = (of_char a :: nat); y = (of_char b :: nat)
      in [b64_char (x div 4), b64_char ((x mod 4) * 16 + y div 16),
          b64_char ((y mod 16) * 4), CHR ''=''])"
| "b64encode (a # b # c # rest) =
     (let x = (of_char a :: nat); y = (of_char b :: nat); z = (of_char c :: nat)
      in [b64_char (x div 4), b64_char ((x mod 4) * 16 + y div 16),
          b64_char ((y mod 16) * 4 + z div 64), b64_char (z mod 64)] @ b64encode rest)"

fun b64decode :: "string \<Rightarrow> string option" where
  "b64decode [] = Some []"
| "b64decode (p # q # r # s # rest) =
     (if rest = [] \<and> s = CHR ''='' then
        (if r = CHR ''='' then
           (case (b64_index p, b64_index q) of
              (Some i, Some j) \<Rightarrow> Some [char_of (i * 4 + j div 16)]
            | _ \<Rightarrow> None)
         else
           (case (b64_index p, b64_index q, b64_index r) of
              (Some i, Some j, Some k) \<Rightarrow>
                Some [char_of (i * 4 + j div 16), char_of ((j mod 16) * 16 + k div 4)]
            | _ \<Rightarrow> None))
      else
        (case (b64_index p, b64_index q, b64_index r, b64_index s) of
           (Some i, Some j, Some k, Some l) \<Rightarrow>
             (case b64decode rest of
                Some t \<Rightarrow>
                  Some ([char_of (i * 4 + j div 16), char_of ((j mod 16) * 16 + k div 4),
                         char_of ((k mod 4) * 64 + l)] @ t)
              | None \<Rightarrow> None)
         | _ \<Rightarrow> None))"
| "b64decode _ = None"

section \<open>Python \<open>str\<close> and UTF-8\<close>

text \<open>
  A \<open>str\<close> is a sequence of code points. UTF-8 encodes every code point except the
  surrogates \<open>U+D800\<close> to \<open>U+DFFF\<close>, which a \<open>str\<close> may hold (a lone surrogate):
  on them \<open>bytes(s, 'utf-8')\<close> raises \<open>UnicodeEncodeError\<close>. A \<open>str\<close> holds no
  number from \<open>0x110000\<close> on; the encoding refuses those too.
\<close>

type_synonym pystr = "nat list"

definition scalar_value :: "nat \<Rightarrow> bool" where
  "scalar_value c = (c < 0xD800 \<or> (0xE000 \<le> c \<and> c < 0x110000))"

definition utf8_char :: "nat \<Rightarrow> string" where
  "utf8_char c =
     (if c < 0x80 then [char_of c]
      else if c < 0x800 then [char_of (0xC0 + c div 64), char_of (0x80 + c mod 64)]
      else if c < 0x10000 then
        [char_of (0xE0 + c div 4096), char_of (0x80 + c div 64 mod 64), char_of (0x80 + c mod 64)]
      else
        [char_of (0xF0 + c div 262144), char_of (0x80 + c div 4096 mod 64),
         char_of (0x80 + c div 64 mod 64), char_of (0x80 + c mod 64)])"

definition utf8_bytes :: "pystr \<Rightarrow> string" where
  "utf8_bytes s = concat (map utf8_char s)"

definition utf8_encode :: "pystr \<Rightarrow> error + string" where
  "utf8_encode s =
     (if list_all scalar_value s then Inr (utf8_bytes s) else Inl UnicodeEncodeError)"

text \<open>
  Decoding, for what the encoding gives: lead byte and continuation bytes are checked,
  overlong forms are not.
\<close>

definition cont_bits :: "char \<Rightarrow> nat option" where
  "cont_bits b = (if 0x80 \<le> (of_char b :: nat) \<and> (of_char b :: nat) < 0xC0
                  then Some (of_char b - 0x80) else None)"

fun utf8_decode :: "string \<Rightarrow> pystr option" where
  "utf8_decode [] = Some []"
| "utf8_decode (b # bs) =
     (let n = (of_char b :: nat) in
      if n < 0x80 then map_option ((#) n) (utf8_decode bs)
      else if 0xC0 \<le> n \<and> n < 0xE0 then
        (case bs of
           b1 # rest \<Rightarrow>
             (case cont_bits b1 of
                Some x1 \<Rightarrow> map_option ((#) ((n - 0xC0) * 64 + x1)) (utf8_decode rest)
              | None \<Rightarrow> None)
         | _ \<Rightarrow> None)
      else if 0xE0 \<le> n \<and> n < 0xF0 then
        (case bs of
           b1 # b2 # rest \<Rightarrow>
             (case (cont_bits b1, cont_bits b2) of
                (Some x1, Some x2) \<Rightarrow>
                  map_option ((#) (((n - 0xE0) * 64 + x1) * 64 + x2)) (utf8_decode rest)
              | _ \<Rightarrow> None)
         | _ \<Rightarrow> None)
      else if 0xF0 \<le> n \<and> n < 0xF8 then
        (case bs of
           b1 # b2 # b3 # rest \<Rightarrow>
             (case (cont_bits b1, cont_bits b2, cont_bits b3) of
                (Some x1, Some x2, Some x3) \<Rightarrow>
                  map_option ((#) ((((n - 0xF0) * 64 + x1) * 64 + x2) * 64 + x3))
                    (utf8_decode rest)
              | _ \<Rightarrow> None)
         | _ \<Rightarrow> None)
      else None)"

text \<open>A \<open>str\<close> without a lone surrogate, as the credentials are.\<close>

typedef encodable_str = "{s :: pystr. list_all scalar_value s}"
  morphisms code_points Encodable_str
  by (rule exI [of _ "[]"]) simp

section \<open>Auth\<close>

record api_params =
  url :: string
  endpoint_path :: string
  agency :: string
  codelist_endpoint_ref_area :: string
  version :: string
  format :: string
  items_add_item_endpoint :: string
  validation_load_endpoint :: string
  validation_load_status_endpoint :: string

type_synonym headers = "(string \<times> string) list"

text \<open>\<open>f"{user}:{password}"\<close> puts the colon, code point 58, between the two.\<close>

definition fmr_auth :: "api_params \<Rightarrow> pystr \<Rightarrow> pystr \<Rightarrow> error + headers" where
  "fmr_auth p user password =
     bind_e (utf8_encode (user @ [58] @ password)) (\<lambda>bytes_auth.
     let token = ''Basic '' @ b64encode bytes_auth
     in Inr [(''Authorization'', token), (''Content-Type'', ''application/json'')])"

section \<open>HTTP, logging and the file system\<close>

text \<open>
  What the module sends with \<open>requests\<close>: a GET of a URL with query parameters, a POST
  with headers and a JSON body, a POST with headers and uploaded files (field name and
  file content).
\<close>

datatype request =
    GET string "(string \<times> json) list"
  | POST_json string headers json
  | POST_files string "(string \<times> string) list" headers

text \<open>
  A response, as far as the module reads it: \<open>status_code\<close>, \<open>text\<close>, and what
  \<open>json()\<close> gives, \<open>None\<close> when the body is not valid JSON (then \<open>json()\<close> raises
  \<open>JSONDecodeError\<close>).
\<close>

record response =
  status_code :: int
  resp_text :: string
  json_body :: "json option"

text \<open>
  Everything the module does to the outside is recorded in a trace, in the order it
  happens: requests sent, records given to the logger (format string and arguments),
  lines printed, seconds slept.
\<close>

datatype event =
    Request request
  | Log string "json list"
  | Print string
  | Sleep nat

text \<open>
  The surroundings of a call: the registry, which answers a request depending on all
  that happened before it; the files that can be opened for reading, with their content;
  the absolute path of the working directory; and the credentials, which the module
  reads from the global \<open>credentials['fmr']\<close>: two strings that UTF-8 can encode.
\<close>

record env =
  server :: "event list \<Rightarrow> request \<Rightarrow> response"
  files :: "string \<Rightarrow> string option"
  cwd :: string
  fmr_user :: encodable_str
  fmr_password :: encodable_str

text \<open>
  A computation takes the trace so far and gives a value or the exception raised,
  with the trace extended by what it did: what happened before an exception stays.
\<close>

type_synonym 'a io = "event list \<Rightarrow> (error + 'a) \<times> event list"

definition ret :: "'a \<Rightarrow> 'a io" where
  "ret x tr = (Inr x, tr)"

definition raise :: "error \<Rightarrow> 'a io" where
  "raise e tr = (Inl e, tr)"

definition lift_e :: "error + 'a \<Rightarrow> 'a io" where
  "lift_e r tr = (r, tr)"

definition bind_io :: "'a io \<Rightarrow> ('a \<Rightarrow> 'b io) \<Rightarrow> 'b io" where
  "bind_io m f tr = (case m tr of (Inl e, tr') \<Rightarrow> (Inl e, tr') | (Inr x, tr') \<Rightarrow> f x tr')"

text \<open>\<open>try: m except e: h\<close>.\<close>

definition try_except :: "'a io \<Rightarrow> error \<Rightarrow> 'a io \<Rightarrow> 'a io" where
  "try_except m e h tr =
     (case m tr of
        (Inl e', tr') \<Rightarrow> if e' = e then h tr' else (Inl e', tr')
      | (Inr x, tr') \<Rightarrow> (Inr x, tr'))"

definition emit :: "event \<Rightarrow> unit io" where
  "emit ev tr = (Inr (), tr @ [ev])"

definition http :: "env \<Rightarrow> request \<Rightarrow> response io" where
  "http E rq tr = (Inr (server E tr rq), tr @ [Request rq])"

definition response_json :: "response \<Rightarrow> json io" where
  "response_json r =
     lift_e (case json_body r of None \<Rightarrow> Inl JSONDecodeError | Some j \<Rightarrow> Inr j)"

definition open_rb :: "env \<Rightarrow> string \<Rightarrow> string io" where
  "open_rb E path = lift_e (case files E path of None \<Rightarrow> Inl OSError | Some c \<Rightarrow> Inr c)"

section \<open>Codelist reader\<close>

definition ref_area_url :: "api_params \<Rightarrow> string" where
  "ref_area_url p =
     url p @ endpoint_path p @ agency p @ codelist_endpoint_ref_area p @ ''/''
       @ version p @ format p"

definition ref_area_request :: "api_params \<Rightarrow> request" where
  "ref_area_request p = GET (ref_area_url p) []"

text \<open>\<open>codelist_dict['Codelist'][0]['items']\<close>, as the loop runs over it.\<close>

definition codelist_items :: "json \<Rightarrow> error + json list" where
  "codelist_items codelist_dict =
     bind_e (getitem_str codelist_dict ''Codelist'') (\<lambda>cl.
     bind_e (getitem_int cl 0) (\<lambda>c0.
     bind_e (getitem_str c0 ''items'') (\<lambda>items.
     py_iter items)))"

text \<open>
  One round of the loop, \<open>ref_area_dict[economy['names'][0]['value']] = economy['id']\<close>:
  Python evaluates the right-hand side first, then the key, then stores.
\<close>

definition ref_area_entry :: "json \<Rightarrow> error + (json \<times> json)" where
  "ref_area_entry economy =
     bind_e (getitem_str economy ''id'') (\<lambda>v.
     bind_e (getitem_str economy ''names'') (\<lambda>names.
     bind_e (getitem_int names 0) (\<lambda>name0.
     bind_e (getitem_str name0 ''value'') (\<lambda>k.
     Inr (k, v)))))"

fun ref_area_loop :: "json list \<Rightarrow> pydict \<Rightarrow> error + pydict" where
  "ref_area_loop [] ref_area_dict = Inr ref_area_dict"
| "ref_area_loop (economy # rest) ref_area_dict =
     (case ref_area_entry economy of
        Inl e \<Rightarrow> Inl e
      | Inr (k, v) \<Rightarrow>
          (case pydict_set ref_area_dict k v of
             Inl e \<Rightarrow> Inl e
           | Inr d \<Rightarrow> ref_area_loop rest d))"

definition get_ref_area_codelist :: "env \<Rightarrow> api_params \<Rightarrow> pydict io" where
  "get_ref_area_codelist E p =
     bind_io (emit (Log ''>>>>> Getting values for the codelist %s...''
                      [JStr (codelist_endpoint_ref_area p)])) (\<lambda>_.
     bind_io (try_except
                (bind_io (http E (ref_area_request p)) response_json)
                JSONDecodeError
                (bind_io (emit (Print ''FMR instance not accessible!'')) (\<lambda>_.
                 raise SystemExit))) (\<lambda>codelist_dict.
     lift_e (bind_e (codelist_items codelist_dict) (\<lambda>economies.
             ref_area_loop economies []))))"

section \<open>Codelist writer\<close>

definition codelist_url :: "api_params \<Rightarrow> string \<Rightarrow> string \<Rightarrow> string" where
  "codelist_url p agency' codelist_id =
     url p @ endpoint_path p @ agency' @ ''/'' @ codelist_id @ format p"

definition codelist_request :: "api_params \<Rightarrow> string \<Rightarrow> string \<Rightarrow> request" where
  "codelist_request p agency' codelist_id = GET (codelist_url p agency' codelist_id) []"

definition add_item_request :: "api_params \<Rightarrow> headers \<Rightarrow> json \<Rightarrow> request" where
  "add_item_request p hdrs body = POST_json (url p @ items_add_item_endpoint p) hdrs body"

definition temp_payload :: "string \<Rightarrow> string \<Rightarrow> json" where
  "temp_payload item_id item_description =
     JObj [(''id'', JStr item_id),
           (''names'', JArr [JObj [(''locale'', JStr ''en''),
                                   (''value'', JStr item_description)]])]"

text \<open>\<open>[i['id'] for i in req['Codelist'][0]['items']]\<close>\<close>

definition existing_list :: "json \<Rightarrow> error + json list" where
  "existing_list req =
     bind_e (codelist_items req) (collect (\<lambda>i. getitem_str i ''id''))"

text \<open>
  \<open>req['Codelist'][0]['items'] = v\<close> changes the dict \<open>req['Codelist'][0]\<close> in place.
  Values do not change here, so the changed dict is put back where it was read: as the
  first element of the list \<open>req['Codelist']\<close>, itself under the key \<open>Codelist\<close> of
  \<open>req\<close>.
\<close>

fun replace_first :: "json \<Rightarrow> json \<Rightarrow> json" where
  "replace_first (JArr (x # xs)) y = JArr (y # xs)"
| "replace_first v y = v"

definition set_codelist0_items :: "json \<Rightarrow> json \<Rightarrow> error + json" where
  "set_codelist0_items req v =
     bind_e (getitem_str req ''Codelist'') (\<lambda>cl.
     bind_e (getitem_int cl 0) (\<lambda>c0.
     bind_e (setitem_str c0 ''items'' v) (\<lambda>c0'.
     setitem_str req ''Codelist'' (replace_first cl c0'))))"

definition add_single_item_to_codelist ::
  "env \<Rightarrow> api_params \<Rightarrow> string \<Rightarrow> string \<Rightarrow> string \<Rightarrow> string \<Rightarrow> string \<Rightarrow> bool io" where
  "add_single_item_to_codelist E p codelist_id item_id item_description agency' action =
     (let payload = temp_payload item_id item_description in
      bind_io (lift_e (fmr_auth p (code_points (fmr_user E)) (code_points (fmr_password E))))
        (\<lambda>hdrs.
      bind_io
        (try_except
           (bind_io (http E (codelist_request p agency' codelist_id)) (\<lambda>r.
            bind_io (response_json r) (\<lambda>req.
            bind_io (lift_e (existing_list req)) (\<lambda>existing.
            if JStr item_id \<notin> set existing then
              bind_io (lift_e (set_codelist0_items req (JArr [payload]))) (\<lambda>req'.
              bind_io (http E (add_item_request p (dict_set hdrs ''ACTION'' action) req'))
                (\<lambda>response.
              if contains ''Success'' (resp_text response) then
                emit (Log ''>>>>>>>>> Added codes(s) successfully!'' [])
              else
                bind_io (response_json response) (\<lambda>j.
                emit (Log ''>>>>>>>>> %s'' [j]))))
            else
              emit (Log ''>>>>>>>>> ID already exists in codelist...'' [])))))
           JSONDecodeError
           (bind_io (http E (codelist_request p agency' codelist_id)) (\<lambda>r.
            bind_io (response_json r) (\<lambda>req.
            bind_io (lift_e (getattr_text req)) (\<lambda>t.
            if contains ''Blocked'' t then
              emit (Log ''>>>>>>>>> WebPage Blocked! Restart FMR instance.'' [])
            else
              emit (Log ''>>>>>>>>> Error connecting API: %s'' [JStr t]))))))
        (\<lambda>_. ret True)))"

text \<open>An element of \<open>item_list\<close>: a dict with the keys \<open>id\<close> and \<open>description\<close>.\<close>

record item =
  ident :: string
  description :: string

fun add_items_loop ::
  "env \<Rightarrow> api_params \<Rightarrow> string \<Rightarrow> string \<Rightarrow> string \<Rightarrow> item list \<Rightarrow> unit io" where
  "add_items_loop E p codelist_id agency' action [] = ret ()"
| "add_items_loop E p codelist_id agency' action (it # rest) =
     bind_io (emit (Log ''>>>>>>> Item: %s'' [JStr (ident it)])) (\<lambda>_.
     bind_io (add_single_item_to_codelist E p codelist_id (ident it) (description it)
                agency' action) (\<lambda>_.
     add_items_loop E p codelist_id agency' action rest))"

definition add_items_to_codelist ::
  "env \<Rightarrow> api_params \<Rightarrow> string \<Rightarrow> item list \<Rightarrow> string \<Rightarrow> string \<Rightarrow> bool io" where
  "add_items_to_codelist E p codelist_id item_list agency' action =
     bind_io (emit (Log ''>>>>> Adding items to codelist %s...'' [JStr codelist_id])) (\<lambda>_.
     bind_io (add_items_loop E p codelist_id agency' action item_list) (\<lambda>_.
     ret True))"

section \<open>Dataset validator\<close>

definition load_request :: "api_params \<Rightarrow> string \<Rightarrow> string \<Rightarrow> request" where
  "load_request p upload delimiter =
     POST_files (url p @ validation_load_endpoint p) [(''uploadFile'', upload)]
       [(''Data-Format'', ''csv;delimiter='' @ delimiter)]"

definition load_status_request :: "api_params \<Rightarrow> json \<Rightarrow> request" where
  "load_status_request p uid = GET (url p @ validation_load_status_endpoint p) [(''uid'', uid)]"

text \<open>\<open>dx['ValidationReport'][0]['Errors']\<close>\<close>

definition dataset_errors :: "json \<Rightarrow> error + json" where
  "dataset_errors dx =
     bind_e (getitem_str dx ''ValidationReport'') (\<lambda>report.
     bind_e (getitem_int report 0) (\<lambda>r0.
     getitem_str r0 ''Errors''))"

text \<open>The loop over \<open>load_status['Datasets']\<close> that fills \<open>errors\<close>.\<close>

definition collect_errors :: "json \<Rightarrow> error + json list" where
  "collect_errors load_status =
     bind_e (getitem_str load_status ''Datasets'') (\<lambda>datasets.
     bind_e (py_iter datasets) (collect dataset_errors))"

text \<open>
  The function assigns \<open>validated_bool\<close> and \<open>error_dict\<close> together, in some branches
  only: \<open>None\<close> stands for a branch that leaves them unassigned, and the final
  \<open>return\<close> of unassigned local variables raises \<open>UnboundLocalError\<close>.
\<close>

definition validate_single_dataset_fmr ::
  "env \<Rightarrow> api_params \<Rightarrow> string \<Rightarrow> string \<Rightarrow> (bool \<times> json) io" where
  "validate_single_dataset_fmr E p filepath delimiter =
     bind_io (lift_e (fmr_auth p (code_points (fmr_user E)) (code_points (fmr_password E))))
       (\<lambda>hdrs.
      bind_io (open_rb E filepath) (\<lambda>upload.
      bind_io (http E (load_request p upload delimiter)) (\<lambda>val_req.
      bind_io (emit (Sleep 5)) (\<lambda>_.
      bind_io
        (if status_code val_req = 200 then
           try_except
             (bind_io (response_json val_req) (\<lambda>val_json.
              bind_io (lift_e (getitem_str val_json ''uid'')) (\<lambda>uid.
              bind_io (http E (load_status_request p uid)) (\<lambda>r.
              bind_io (response_json r) (\<lambda>load_status.
              bind_io (lift_e (py_keys load_status)) (\<lambda>keys.
              if ''Errors'' \<in> set keys then
                bind_io (lift_e (getitem_str load_status ''Errors'')) (\<lambda>errs.
                if truthy errs then
                  bind_io (emit (Log ''>>>>>>>>> Validation finished with Errors! JSON report will be exported to working repository'' [])) (\<lambda>_.
                  bind_io (lift_e (collect_errors load_status)) (\<lambda>errors.
                  ret (Some (False, JObj [(''ValidationReport'', JArr errors)]))))
                else
                  bind_io (emit (Log ''>>>>>>>>> Dataset validation complete without Errors!'' [])) (\<lambda>_.
                  ret (Some (True, JObj []))))
              else if ''Error'' \<in> set keys then
                bind_io (lift_e (getitem_str load_status ''Error'')) (\<lambda>err.
                bind_io (emit (Log ''>>>>>>>>> Session timed out : %s'' [err])) (\<lambda>_.
                ret (Some (False, JObj [(''ValidationReport'', JStr ''Session timed out'')]))))
              else
                ret None))))))
             JSONDecodeError
             (bind_io (emit (Log ''>>>>>>>>> Cannot connect to FMR instance!!'' [])) (\<lambda>_.
              ret (Some (False,
                         JObj [(''ValidationReport'', JStr ''Cannot connect to FMR instance'')]))))
         else
           bind_io (emit (Log ''>>>>>>>>> Error with load endpoint: %s''
                            [JStr (resp_text val_req)])) (\<lambda>_.
           ret (Some (False, JObj [(''ValidationReport'', JStr ''Error with load endpoint'')]))))
        (\<lambda>assigned.
           case assigned of
             None \<Rightarrow> raise UnboundLocalError
           | Some result \<Rightarrow> ret result)))))"

fun validate_loop ::
  "env \<Rightarrow> api_params \<Rightarrow> string \<Rightarrow> string \<Rightarrow> string list \<Rightarrow>
   (string \<times> bool) list \<Rightarrow> (string \<times> json) list \<Rightarrow>
   ((string \<times> bool) list \<times> (string \<times> json) list) io" where
  "validate_loop E p export_path delimiter [] validated err = ret (validated, err)"
| "validate_loop E p export_path delimiter (filename # rest) validated err =
     bind_io (emit (Log ''>>>>>>> File: %s'' [JStr filename])) (\<lambda>_.
     bind_io (validate_single_dataset_fmr E p (os_path_join export_path [filename])
                delimiter) (\<lambda>temp.
     validate_loop E p export_path delimiter rest
       (dict_set validated filename (fst temp)) (dict_set err filename (snd temp))))"

text \<open>
  \<open>datasets\<close> is a dict from file names to datasets; only its keys are used. The
  result is \<open>None\<close> when the flag is off.
\<close>

definition validate_datasets_fmr ::
  "env \<Rightarrow> api_params \<Rightarrow> (string \<times> 'd) list \<Rightarrow> string \<Rightarrow> bool \<Rightarrow> string \<Rightarrow>
   ((string \<times> bool) list \<times> (string \<times> json) list) option io" where
  "validate_datasets_fmr E p datasets folder_name boolean delimiter =
     (if boolean then
        bind_io (emit (Log ''>>>>> Validating files against DSD...'' [])) (\<lambda>_.
        bind_io (validate_loop E p
                   (os_path_join (cwd E) [''data'', ''03_primary'', folder_name])
                   delimiter (map fst datasets) [] []) (\<lambda>result.
        ret (Some result)))
      else ret None)"

section \<open>Reading a trace\<close>

fun is_get :: "event \<Rightarrow> bool" where
  "is_get (Request (GET u ps)) = True"
| "is_get ev = False"

fun is_post :: "event \<Rightarrow> bool" where
  "is_post (Request (POST_json u h b)) = True"
| "is_post (Request (POST_files u f h)) = True"
| "is_post ev = False"

text \<open>The record the batch writer logs before it handles an item.\<close>

fun is_item_log :: "event \<Rightarrow> bool" where
  "is_item_log (Log f args) = (f = ''>>>>>>> Item: %s'')"
| "is_item_log ev = False"

definition item_marks :: "event list \<Rightarrow> event list" where
  "item_marks evs = filter (\<lambda>ev. is_item_log ev \<or> is_get ev) evs"

text \<open>
  Answers with which a call of the single-item writer comes back: a codelist whose
  item ids can be read, and an answer to the POST that contains \<open>Success\<close> or is JSON.
\<close>

definition fetch_ok :: "response \<Rightarrow> bool" where
  "fetch_ok r =
     (case json_body r of
        None \<Rightarrow> False
      | Some j \<Rightarrow> (case existing_list j of Inl e \<Rightarrow> False | Inr ids \<Rightarrow> True))"

definition post_ok :: "response \<Rightarrow> bool" where
  "post_ok r = (contains ''Success'' (resp_text r) \<or> json_body r \<noteq> None)"

definition never_exits :: "'a io \<Rightarrow> bool" where
  "never_exits m = (\<forall>tr. fst (m tr) \<noteq> Inl SystemExit)"

section \<open>Concrete registries\<close>

definition p0 :: api_params where
  "p0 = \<lparr>url = ''http://localhost:8080'',
          endpoint_path = ''/sdmx/v2/structure/codelist/'',
          agency = ''WB/'',
          codelist_endpoint_ref_area = ''CL_REF_AREA'',
          version = ''1.0'',
          format = ''?format=fusion-json'',
          items_add_item_endpoint = ''/ws/secure/sdmxapi/rest'',
          validation_load_endpoint = ''/ws/public/data/load'',
          validation_load_status_endpoint = ''/ws/public/data/loadStatus''\<rparr>"

text \<open>The user \<open>admin\<close> with the password \<open>secret\<close>.\<close>

definition admin_user :: encodable_str where
  "admin_user = Encodable_str [97, 100, 109, 105, 110]"

definition secret_password :: encodable_str where
  "secret_password = Encodable_str [115, 101, 99, 114, 101, 116]"

definition env0 :: "(event list \<Rightarrow> request \<Rightarrow> response) \<Rightarrow> env" where
  "env0 srv =
     \<lparr>server = srv,
      files = (\<lambda>path. if path = ''/work/data/03_primary/out/a.csv''
                       then Some ''STRUCTURE,STRUCTURE_ID,ACTION'' else None),
      cwd = ''/work'',
      fmr_user = admin_user,
      fmr_password = secret_password\<rparr>"

text \<open>An answer with a JSON body, and an answer whose body is the given text, not JSON.\<close>

definition json_response :: "string \<Rightarrow> json \<Rightarrow> response" where
  "json_response t j = \<lparr>status_code = 200, resp_text = t, json_body = Some j\<rparr>"

definition text_response :: "int \<Rightarrow> string \<Rightarrow> response" where
  "text_response code t = \<lparr>status_code = code, resp_text = t, json_body = None\<rparr>"

definition always :: "response \<Rightarrow> event list \<Rightarrow> request \<Rightarrow> response" where
  "always r tr rq = r"

text \<open>The codelist of the spec's example, and one where two items share a name.\<close>

definition codelist_inx :: json where
  "codelist_inx =
     JObj [(''Codelist'', JArr [JObj [(''items'', JArr [
       JObj [(''id'', JStr ''INX''), (''names'', JArr [JObj [(''value'', JStr ''Not classified'')]])]
     ])]])]"

definition codelist_inx_response :: response where
  \<open>codelist_inx_response =
     json_response ''{"Codelist":[{"items":[{"id":"INX","names":[{"value":"Not classified"}]}]}]}''
       codelist_inx\<close>

definition codelist_shared_name :: json where
  "codelist_shared_name =
     JObj [(''Codelist'', JArr [JObj [(''items'', JArr [
       JObj [(''id'', JStr ''A''), (''names'', JArr [JObj [(''value'', JStr ''X'')]])],
       JObj [(''id'', JStr ''B''), (''names'', JArr [JObj [(''value'', JStr ''X'')]])]
     ])]])]"

definition codelist_shared_name_response :: response where
  \<open>codelist_shared_name_response =
     json_response ''{"Codelist":[{"items":[{"id":"A","names":[{"value":"X"}]},{"id":"B","names":[{"value":"X"}]}]}]}''
       codelist_shared_name\<close>

definition empty_object_response :: response where
  "empty_object_response = json_response ''{}'' (JObj [])"

definition blocked_response :: response where
  "blocked_response = text_response 403 ''<html>Blocked</html>''"

text \<open>
  A registry for the validator: the upload is answered with the uid \<open>123\<close>, the
  status request with the given load status.
\<close>

definition validation_server :: "response \<Rightarrow> event list \<Rightarrow> request \<Rightarrow> response" where
  \<open>validation_server status tr rq =
     (case rq of
        GET u ps \<Rightarrow> status
      | POST_json u h b \<Rightarrow> status
      | POST_files u f h \<Rightarrow> json_response ''{"uid":"123"}'' (JObj [(''uid'', JStr ''123'')]))\<close>

definition status_errors_only :: response where
  \<open>status_errors_only = json_response ''{"Errors": true}'' (JObj [(''Errors'', JBool True)])\<close>

definition status_no_errors :: response where
  \<open>status_no_errors = json_response ''{"Errors": false}'' (JObj [(''Errors'', JBool False)])\<close>

definition status_bad_row :: response where
  \<open>status_bad_row =
     json_response ''{"Errors": true, "Datasets":[{"ValidationReport":[{"Errors":["bad row"]}]}]}''
       (JObj [(''Errors'', JBool True),
              (''Datasets'', JArr [JObj [(''ValidationReport'',
                 JArr [JObj [(''Errors'', JArr [JStr ''bad row''])]])]])])\<close>

definition status_validating :: response where
  \<open>status_validating =
     json_response ''{"Status": "Validating"}'' (JObj [(''Status'', JStr ''Validating'')])\<close>

definition two_items :: "item list" where
  "two_items = [\<lparr>ident = ''A'', description = ''first''\<rparr>,
                \<lparr>ident = ''B'', description = ''second''\<rparr>]"

section \<open>Base64 decodes what it encoded\<close>

lemma b64_alphabet_distinct: "distinct b64_alphabet"
  by (simp add: b64_alphabet_def)

lemma b64_alphabet_length: "length b64_alphabet = 64"
  by (simp add: b64_alphabet_def)

lemma index_of_nth: "distinct xs \<Longrightarrow> n < length xs \<Longrightarrow> index_of (xs ! n) xs = Some n"
proof (induction xs arbitrary: n)
  case Nil
  then show ?case by simp
next
  case (Cons a xs)
  show ?case
  proof (cases n)
    case 0
    then show ?thesis by simp
  next
    case (Suc m)
    with Cons.prems have "xs ! m \<noteq> a" by auto
    with Suc Cons show ?thesis by auto
  qed
qed

lemma b64_index_char: "n < 64 \<Longrightarrow> b64_index (b64_char n) = Some n"
  by (simp add: b64_index_def b64_char_def index_of_nth b64_alphabet_distinct
      b64_alphabet_length)

lemma b64_char_not_pad: "n < 64 \<Longrightarrow> b64_char n \<noteq> CHR ''=''"
proof -
  assume "n < 64"
  then have "b64_char n \<in> set b64_alphabet"
    by (simp add: b64_char_def b64_alphabet_length)
  moreover have "CHR ''='' \<notin> set b64_alphabet"
    by (simp add: b64_alphabet_def)
  ultimately show ?thesis by auto
qed

lemma sextet_bounds:
  fixes x y :: nat
  shows "x < 256 \<Longrightarrow> x div 4 < 64"
    and "y < 256 \<Longrightarrow> (x mod 4) * 16 + y div 16 < 64"
    and "y < 256 \<Longrightarrow> (x mod 16) * 4 + y div 64 < 64"
    and "x mod 64 < 64"
    and "(x mod 4) * 16 < 64"
    and "(x mod 16) * 4 < 64"
  by simp_all

lemma octet_values:
  fixes y :: nat
  assumes "y < 256"
  shows "y div 16 div 16 = 0" and "y div 16 mod 16 = y div 16"
    and "y div 64 div 4 = 0" and "y div 64 mod 4 = y div 64"
  using assms by (simp_all add: div_mult2_eq[symmetric] less_mult_imp_div_less)

lemma b64decode_b64encode: "b64decode (b64encode bs) = Some bs"
  by (induction bs rule: b64encode.induct)
     (simp_all add: Let_def b64_index_char b64_char_not_pad sextet_bounds octet_values)

text \<open>The output of \<open>b64encode\<close> is ASCII, so \<open>.decode('ascii')\<close> cannot fail on it.\<close>

lemma b64_alphabet_ascii: "c \<in> set b64_alphabet \<Longrightarrow> (of_char c :: nat) < 128"
  by (auto simp add: b64_alphabet_def)

lemma b64_char_ascii: "n < 64 \<Longrightarrow> (of_char (b64_char n) :: nat) < 128"
  by (simp add: b64_char_def b64_alphabet_ascii b64_alphabet_length)

lemma b64encode_ascii: "c \<in> set (b64encode bs) \<Longrightarrow> (of_char c :: nat) < 128"
  by (induction bs rule: b64encode.induct)
     (auto simp add: Let_def b64_char_ascii sextet_bounds)

section \<open>UTF-8 decodes what it encoded\<close>

lemma of_char_char_of_small: "n < 256 \<Longrightarrow> (of_char (char_of n) :: nat) = n"
  by (simp add: of_char_of)

lemma cont_bits_char: "x < 64 \<Longrightarrow> cont_bits (char_of (0x80 + x)) = Some x"
  by (simp add: cont_bits_def of_char_of)

lemma utf8_decode_one_byte:
  "n < 0x80 \<Longrightarrow> utf8_decode (char_of n # bs) = map_option ((#) n) (utf8_decode bs)"
  by (simp add: of_char_of)

lemma utf8_decode_two_bytes:
  "hi < 32 \<Longrightarrow> lo < 64 \<Longrightarrow>
   utf8_decode (char_of (0xC0 + hi) # char_of (0x80 + lo) # bs)
     = map_option ((#) (hi * 64 + lo)) (utf8_decode bs)"
  by (simp add: of_char_of cont_bits_char Let_def)

lemma utf8_decode_three_bytes:
  "hi < 16 \<Longrightarrow> mi < 64 \<Longrightarrow> lo < 64 \<Longrightarrow>
   utf8_decode (char_of (0xE0 + hi) # char_of (0x80 + mi) # char_of (0x80 + lo) # bs)
     = map_option ((#) ((hi * 64 + mi) * 64 + lo)) (utf8_decode bs)"
  by (simp add: of_char_of cont_bits_char Let_def)

lemma utf8_decode_four_bytes:
  "hi < 8 \<Longrightarrow> m1 < 64 \<Longrightarrow> m2 < 64 \<Longrightarrow> lo < 64 \<Longrightarrow>
   utf8_decode (char_of (0xF0 + hi) # char_of (0x80 + m1) # char_of (0x80 + m2)
                  # char_of (0x80 + lo) # bs)
     = map_option ((#) (((hi * 64 + m1) * 64 + m2) * 64 + lo)) (utf8_decode bs)"
  by (simp add: of_char_of cont_bits_char Let_def)

lemma three_bytes_value: "(c div 4096 * 64 + c div 64 mod 64) * 64 + c mod 64 = (c::nat)"
proof -
  have "c div 4096 = c div 64 div 64" by (simp add: div_mult2_eq[symmetric])
  then have "c div 4096 * 64 + c div 64 mod 64 = c div 64" by simp
  then show ?thesis by simp
qed

lemma four_bytes_value:
  "((c div 262144 * 64 + c div 4096 mod 64) * 64 + c div 64 mod 64) * 64 + c mod 64 = (c::nat)"
proof -
  have "c div 262144 = c div 4096 div 64" by (simp add: div_mult2_eq[symmetric])
  then have "c div 262144 * 64 + c div 4096 mod 64 = c div 4096" by simp
  then show ?thesis by (simp only: three_bytes_value)
qed

lemma utf8_decode_char:
  assumes "scalar_value c"
  shows "utf8_decode (utf8_char c @ bs) = map_option ((#) c) (utf8_decode bs)"
proof -
  consider "c < 0x80" | "0x80 \<le> c" "c < 0x800" | "0x800 \<le> c" "c < 0x10000"
    | "0x10000 \<le> c" "c < 0x110000"
    using assms unfolding scalar_value_def by linarith
  then show ?thesis
  proof cases
    case 1
    then show ?thesis by (simp only: utf8_char_def if_True append_Cons append_Nil utf8_decode_one_byte)
  next
    case 2
    have b: "c div 64 * 64 + c mod 64 = c" by simp
    from 2 have enc: "utf8_char c = [char_of (0xC0 + c div 64), char_of (0x80 + c mod 64)]"
      by (simp add: utf8_char_def)
    from 2 have "c div 64 < 32" by simp
    from utf8_decode_two_bytes [OF this, of "c mod 64" bs] show ?thesis
      by (simp only: enc b append_Cons append_Nil)
  next
    case 3
    have b: "(c div 4096 * 64 + c div 64 mod 64) * 64 + c mod 64 = c"
      by (rule three_bytes_value)
    from 3 have enc: "utf8_char c = [char_of (0xE0 + c div 4096), char_of (0x80 + c div 64 mod 64),
                                     char_of (0x80 + c mod 64)]"
      by (simp add: utf8_char_def)
    from 3 have "c div 4096 < 16" by simp
    from utf8_decode_three_bytes [OF this, of "c div 64 mod 64" "c mod 64" bs] show ?thesis
      by (simp only: enc b append_Cons append_Nil)
  next
    case 4
    have b: "((c div 262144 * 64 + c div 4096 mod 64) * 64 + c div 64 mod 64) * 64 + c mod 64 = c"
      by (rule four_bytes_value)
    from 4 have enc: "utf8_char c = [char_of (0xF0 + c div 262144), char_of (0x80 + c div 4096 mod 64),
         char_of (0x80 + c div 64 mod 64), char_of (0x80 + c mod 64)]"
      by (simp add: utf8_char_def)
    from 4 have "c div 262144 < 8" by simp
    from utf8_decode_four_bytes [OF this, of "c div 4096 mod 64" "c div 64 mod 64" "c mod 64" bs] show ?thesis
      by (simp only: enc b append_Cons append_Nil)
  qed
qed

lemma utf8_decode_encode: "list_all scalar_value s \<Longrightarrow> utf8_decode (utf8_bytes s) = Some s"
  by (induction s) (simp_all add: utf8_bytes_def utf8_decode_char)

section \<open>The headers of a request\<close>

text \<open>
  C10, as the claim states it, fails: the user name is the one lone surrogate
  \<open>U+D800\<close>, the password is \<open>pw\<close>. \<open>bytes(f"{user}:{password}", 'utf-8')\<close>
  raises \<open>UnicodeEncodeError\<close>, so \<open>fmr_auth\<close> has an error condition and returns no
  header mapping.
\<close>

theorem lone_surrogate_raises:
  "fmr_auth p0 [0xD800] [112, 119] = Inl UnicodeEncodeError"
  by (simp add: fmr_auth_def utf8_encode_def scalar_value_def bind_e_def)

text \<open>
  C10, amended. For every user and password that hold no lone surrogate, \<open>fmr_auth\<close>
  returns a header mapping with exactly the two entries \<open>Authorization\<close> and
  \<open>Content-Type\<close>. The value of \<open>Content-Type\<close> is \<open>application/json\<close>; the value
  of \<open>Authorization\<close> is \<open>Basic\<close>, a space, and a token whose base64 decoding is the
  UTF-8 encoding of the user, a colon and the password, and decodes to that string. For
  every other user and password it raises \<open>UnicodeEncodeError\<close>. The function reads
  and writes nothing but its arguments and its result.
\<close>

theorem fmr_auth_basic_token:
  "(list_all scalar_value (user @ password) \<longrightarrow>
      (\<exists>tok. fmr_auth p user password =
                 Inr [(''Authorization'', ''Basic '' @ tok),
                      (''Content-Type'', ''application/json'')]
             \<and> b64decode tok = Some (utf8_bytes (user @ [58] @ password))
             \<and> utf8_decode (utf8_bytes (user @ [58] @ password)) = Some (user @ [58] @ password)))
   \<and> (\<not> list_all scalar_value (user @ password) \<longrightarrow>
        fmr_auth p user password = Inl UnicodeEncodeError)"
proof -
  have colon: "scalar_value 58"
    by (simp add: scalar_value_def)
  show ?thesis
    using colon
    by (auto simp add: fmr_auth_def utf8_encode_def bind_e_def Let_def b64decode_b64encode
        utf8_decode_encode)
qed

lemma admin_secret_bytes:
  "utf8_bytes [97, 100, 109, 105, 110, 58, 115, 101, 99, 114, 101, 116] = ''admin:secret''"
  by code_simp

theorem fmr_auth_basic_token_witness:
  "\<exists>tok. fmr_auth p0 [97, 100, 109, 105, 110] [115, 101, 99, 114, 101, 116] =
           Inr [(''Authorization'', ''Basic '' @ tok), (''Content-Type'', ''application/json'')]
       \<and> b64decode tok = Some ''admin:secret''
       \<and> utf8_decode ''admin:secret''
           = Some ([97, 100, 109, 105, 110] @ [58] @ [115, 101, 99, 114, 101, 116])"
  using fmr_auth_basic_token [of "[97, 100, 109, 105, 110]" "[115, 101, 99, 114, 101, 116]" p0]
  by (simp add: scalar_value_def admin_secret_bytes)

text \<open>The credentials can be encoded, so the headers of a request are always there.\<close>

lemma fmr_auth_credentials:
  "fmr_auth p (code_points u) (code_points w) =
     Inr [(''Authorization'',
           ''Basic '' @ b64encode (utf8_bytes (code_points u @ [58] @ code_points w))),
          (''Content-Type'', ''application/json'')]"
proof -
  have "list_all scalar_value (code_points u)" "list_all scalar_value (code_points w)"
    using code_points [of u] code_points [of w] by simp_all
  then show ?thesis
    by (simp add: fmr_auth_def utf8_encode_def bind_e_def Let_def scalar_value_def)
qed

lemma code_points_admin_user: "code_points admin_user = [97, 100, 109, 105, 110]"
  by (simp add: admin_user_def Encodable_str_inverse scalar_value_def)

lemma code_points_secret_password: "code_points secret_password = [115, 101, 99, 114, 101, 116]"
  by (simp add: secret_password_def Encodable_str_inverse scalar_value_def)

lemma fmr_auth_admin_secret:
  "fmr_auth p [97, 100, 109, 105, 110] [115, 101, 99, 114, 101, 116] =
     Inr [(''Authorization'', ''Basic YWRtaW46c2VjcmV0''), (''Content-Type'', ''application/json'')]"
  by (simp add: fmr_auth_def utf8_encode_def scalar_value_def bind_e_def admin_secret_bytes
      Let_def b64_char_def b64_alphabet_def)

section \<open>The dataset validator\<close>

lemmas io_defs = ret_def raise_def lift_e_def bind_io_def try_except_def emit_def http_def
  response_json_def open_rb_def fmr_auth_credentials

text \<open>
  C2. When the file can be opened and the answer to the upload has a status code other
  than 200, \<open>validate_single_dataset_fmr\<close> returns \<open>False\<close> with
  \<open>{"ValidationReport": "Error with load endpoint"}\<close>. It has sent the upload, slept
  and logged the answer's text, and nothing else: the trace has no GET that was not
  there before.
\<close>

theorem load_not_200:
  assumes "files E filepath = Some upload"
    and "status_code (server E tr (load_request p upload delimiter)) \<noteq> 200"
  shows "validate_single_dataset_fmr E p filepath delimiter tr =
           (Inr (False, JObj [(''ValidationReport'', JStr ''Error with load endpoint'')]),
            tr @ [Request (load_request p upload delimiter), Sleep 5,
                  Log ''>>>>>>>>> Error with load endpoint: %s''
                    [JStr (resp_text (server E tr (load_request p upload delimiter)))]])
         \<and> filter is_get (snd (validate_single_dataset_fmr E p filepath delimiter tr))
             = filter is_get tr"
  using assms
  by (simp add: validate_single_dataset_fmr_def io_defs Let_def load_request_def)

theorem load_not_200_witness:
  "validate_single_dataset_fmr (env0 (always blocked_response)) p0
     ''/work/data/03_primary/out/a.csv'' ''comma'' []
   = (Inr (False, JObj [(''ValidationReport'', JStr ''Error with load endpoint'')]),
      [Request (load_request p0 ''STRUCTURE,STRUCTURE_ID,ACTION'' ''comma''), Sleep 5,
       Log ''>>>>>>>>> Error with load endpoint: %s'' [JStr ''<html>Blocked</html>'']])"
  using load_not_200 [of "env0 (always blocked_response)" "''/work/data/03_primary/out/a.csv''"
      "''STRUCTURE,STRUCTURE_ID,ACTION''" "[]" p0 "''comma''"]
  by (simp add: env0_def always_def blocked_response_def text_response_def)

text \<open>
  C3. The upload is answered with status 200 and a JSON body. If the body has no
  \<open>uid\<close>, the call ends in the exception of \<open>val_req['uid']\<close> before any status
  request. If it has one, the status request is answered with a JSON object, and the
  object has neither the key \<open>Errors\<close> nor the key \<open>Error\<close>, then no branch assigns
  \<open>validated_bool\<close> and \<open>error_dict\<close>, and the call ends in \<open>UnboundLocalError\<close>
  at the \<open>return\<close>: it returns no pair. Hence, whenever the call returns a pair, the
  status object has one of the two keys.
\<close>

theorem status_without_keys:
  assumes "files E filepath = Some upload"
    and "status_code (server E tr (load_request p upload delimiter)) = 200"
    and "json_body (server E tr (load_request p upload delimiter)) = Some val_json"
  shows "(\<forall>e. getitem_str val_json ''uid'' = Inl e \<longrightarrow>
           validate_single_dataset_fmr E p filepath delimiter tr =
             (Inl e, tr @ [Request (load_request p upload delimiter), Sleep 5]))
         \<and> (\<forall>uid st.
               getitem_str val_json ''uid'' = Inr uid
               \<and> json_body (server E (tr @ [Request (load_request p upload delimiter), Sleep 5])
                     (load_status_request p uid)) = Some (JObj st) \<longrightarrow>
               (''Errors'' \<notin> fst ` set st \<and> ''Error'' \<notin> fst ` set st \<longrightarrow>
                  validate_single_dataset_fmr E p filepath delimiter tr =
                    (Inl UnboundLocalError,
                     tr @ [Request (load_request p upload delimiter), Sleep 5,
                           Request (load_status_request p uid)]))
               \<and> (\<forall>res. fst (validate_single_dataset_fmr E p filepath delimiter tr) = Inr res \<longrightarrow>
                     ''Errors'' \<in> fst ` set st \<or> ''Error'' \<in> fst ` set st))"
proof -
  have no_uid: "getitem_str val_json ''uid'' = Inl e \<Longrightarrow> e \<noteq> JSONDecodeError" for e
    by (cases val_json) (auto split: option.splits)
  show ?thesis
    using assms no_uid
    by (auto simp add: validate_single_dataset_fmr_def io_defs Let_def)
qed

theorem status_without_keys_witness:
  "validate_single_dataset_fmr (env0 (validation_server status_validating)) p0
     ''/work/data/03_primary/out/a.csv'' ''comma'' []
   = (Inl UnboundLocalError,
      [Request (load_request p0 ''STRUCTURE,STRUCTURE_ID,ACTION'' ''comma''), Sleep 5,
       Request (load_status_request p0 (JStr ''123''))])"
proof -
  have "json_body (server (env0 (validation_server status_validating))
                     ([] @ [Request (load_request p0 ''STRUCTURE,STRUCTURE_ID,ACTION'' ''comma''),
                            Sleep 5])
                     (load_status_request p0 (JStr ''123'')))
        = Some (JObj [(''Status'', JStr ''Validating'')])"
    by (simp add: env0_def validation_server_def status_validating_def json_response_def
        load_status_request_def)
  with status_without_keys [of "env0 (validation_server status_validating)"
      "''/work/data/03_primary/out/a.csv''" "''STRUCTURE,STRUCTURE_ID,ACTION''" "[]" p0 "''comma''"
      "JObj [(''uid'', JStr ''123'')]"]
  show ?thesis
    by (simp add: env0_def validation_server_def json_response_def load_request_def)
qed

text \<open>
  C1, as the claim states it, fails: the answer to the upload is 200 with the uid
  \<open>123\<close>, the load status is \<open>{"Errors": true}\<close>, an object with the key
  \<open>Errors\<close>, and the call ends in \<open>KeyError\<close> at \<open>load_status['Datasets']\<close>
  instead of returning a pair.
\<close>

theorem errors_without_datasets_raises:
  "status_code (validation_server status_errors_only []
       (load_request p0 ''STRUCTURE,STRUCTURE_ID,ACTION'' ''comma'')) = 200
   \<and> json_body (validation_server status_errors_only []
       (load_request p0 ''STRUCTURE,STRUCTURE_ID,ACTION'' ''comma''))
       = Some (JObj [(''uid'', JStr ''123'')])
   \<and> json_body status_errors_only = Some (JObj [(''Errors'', JBool True)])
   \<and> validate_single_dataset_fmr (env0 (validation_server status_errors_only)) p0
        ''/work/data/03_primary/out/a.csv'' ''comma'' []
      = (Inl KeyError,
         [Request (load_request p0 ''STRUCTURE,STRUCTURE_ID,ACTION'' ''comma''), Sleep 5,
          Request (load_status_request p0 (JStr ''123'')),
          Log ''>>>>>>>>> Validation finished with Errors! JSON report will be exported to working repository'' []])"
  by (simp add: validate_single_dataset_fmr_def io_defs Let_def env0_def validation_server_def
      status_errors_only_def json_response_def load_request_def load_status_request_def
      collect_errors_def bind_e_def)

text \<open>
  C1, amended. The upload is answered with status 200 and a JSON body that has a
  \<open>uid\<close>, and the status request with a JSON object that has the key \<open>Errors\<close>.
  If the value of \<open>Errors\<close> is falsy, the call returns \<open>(True, {})\<close>. If it is
  truthy and the object has a key \<open>Datasets\<close> whose value can be iterated and every
  element \<open>dx\<close> of which has \<open>dx['ValidationReport'][0]['Errors']\<close>, the call
  returns \<open>False\<close> with \<open>{"ValidationReport": L}\<close>, where \<open>L\<close> lists these values
  in the order of the elements.
\<close>

theorem status_with_errors_key:
  assumes "files E filepath = Some upload"
    and "status_code (server E tr (load_request p upload delimiter)) = 200"
    and "json_body (server E tr (load_request p upload delimiter)) = Some val_json"
    and "getitem_str val_json ''uid'' = Inr uid"
    and "json_body (server E (tr @ [Request (load_request p upload delimiter), Sleep 5])
           (load_status_request p uid)) = Some (JObj st)"
    and "map_of st ''Errors'' = Some errs"
  shows "(\<not> truthy errs \<longrightarrow>
            validate_single_dataset_fmr E p filepath delimiter tr =
              (Inr (True, JObj []),
               tr @ [Request (load_request p upload delimiter), Sleep 5,
                     Request (load_status_request p uid),
                     Log ''>>>>>>>>> Dataset validation complete without Errors!'' []]))
         \<and> (\<forall>datasets ds L. truthy errs \<and> map_of st ''Datasets'' = Some datasets
                 \<and> py_iter datasets = Inr ds \<and> collect dataset_errors ds = Inr L \<longrightarrow>
              validate_single_dataset_fmr E p filepath delimiter tr =
                (Inr (False, JObj [(''ValidationReport'', JArr L)]),
                 tr @ [Request (load_request p upload delimiter), Sleep 5,
                       Request (load_status_request p uid),
                       Log ''>>>>>>>>> Validation finished with Errors! JSON report will be exported to working repository'' []]))"
proof -
  have k: "''Errors'' \<in> fst ` set st"
    using assms(6) by (metis domI dom_map_of_conv_image_fst)
  show ?thesis
    using assms k
    by (auto simp add: validate_single_dataset_fmr_def io_defs Let_def collect_errors_def bind_e_def)
qed

theorem status_with_errors_key_witness:
  "validate_single_dataset_fmr (env0 (validation_server status_no_errors)) p0
     ''/work/data/03_primary/out/a.csv'' ''comma'' []
   = (Inr (True, JObj []),
      [Request (load_request p0 ''STRUCTURE,STRUCTURE_ID,ACTION'' ''comma''), Sleep 5,
       Request (load_status_request p0 (JStr ''123'')),
       Log ''>>>>>>>>> Dataset validation complete without Errors!'' []])
   \<and> validate_single_dataset_fmr (env0 (validation_server status_bad_row)) p0
     ''/work/data/03_primary/out/a.csv'' ''comma'' []
   = (Inr (False, JObj [(''ValidationReport'', JArr [JArr [JStr ''bad row'']])]),
      [Request (load_request p0 ''STRUCTURE,STRUCTURE_ID,ACTION'' ''comma''), Sleep 5,
       Request (load_status_request p0 (JStr ''123'')),
       Log ''>>>>>>>>> Validation finished with Errors! JSON report will be exported to working repository'' []])"
  using status_with_errors_key [of "env0 (validation_server status_no_errors)"
      "''/work/data/03_primary/out/a.csv''" "''STRUCTURE,STRUCTURE_ID,ACTION''" "[]" p0 "''comma''"
      "JObj [(''uid'', JStr ''123'')]" "JStr ''123''" "[(''Errors'', JBool False)]" "JBool False"]
    status_with_errors_key [of "env0 (validation_server status_bad_row)"
      "''/work/data/03_primary/out/a.csv''" "''STRUCTURE,STRUCTURE_ID,ACTION''" "[]" p0 "''comma''"
      "JObj [(''uid'', JStr ''123'')]" "JStr ''123''"
      "[(''Errors'', JBool True),
              (''Datasets'', JArr [JObj [(''ValidationReport'',
                 JArr [JObj [(''Errors'', JArr [JStr ''bad row''])]])]])]" "JBool True"]
  by (simp add: env0_def validation_server_def status_no_errors_def status_bad_row_def
      json_response_def load_request_def load_status_request_def dataset_errors_def bind_e_def
      seq_index_def)

section \<open>The codelist writer\<close>

lemma existing_list_inx: "existing_list codelist_inx = Inr [JStr ''INX'']"
  by (simp add: existing_list_def codelist_items_def codelist_inx_def bind_e_def seq_index_def)

text \<open>
  C4. The codelist request is answered with JSON whose item ids can be read and have
  \<open>item_id\<close> among them. Then \<open>add_single_item_to_codelist\<close> sends that one GET,
  logs that the id already exists and returns \<open>True\<close>; the trace has no POST that was
  not there before. When the call is made twice in a row and the second request is
  answered with such a codelist too, the two calls send two GETs and no POST.
\<close>

theorem existing_item_no_post:
  assumes "json_body (server E tr (codelist_request p agency' codelist_id)) = Some req"
    and "existing_list req = Inr ids"
    and "JStr item_id \<in> set ids"
  shows "add_single_item_to_codelist E p codelist_id item_id item_description agency' action tr =
           (Inr True,
            tr @ [Request (codelist_request p agency' codelist_id),
                  Log ''>>>>>>>>> ID already exists in codelist...'' []])
         \<and> filter is_post
               (snd (add_single_item_to_codelist E p codelist_id item_id item_description
                       agency' action tr)) = filter is_post tr
         \<and> (\<forall>req2 ids2.
               json_body (server E (tr @ [Request (codelist_request p agency' codelist_id),
                                          Log ''>>>>>>>>> ID already exists in codelist...'' []])
                            (codelist_request p agency' codelist_id)) = Some req2
               \<and> existing_list req2 = Inr ids2 \<and> JStr item_id \<in> set ids2 \<longrightarrow>
               bind_io (add_single_item_to_codelist E p codelist_id item_id item_description
                          agency' action)
                 (\<lambda>_. add_single_item_to_codelist E p codelist_id item_id item_description
                          agency' action) tr =
               (Inr True,
                tr @ [Request (codelist_request p agency' codelist_id),
                      Log ''>>>>>>>>> ID already exists in codelist...'' [],
                      Request (codelist_request p agency' codelist_id),
                      Log ''>>>>>>>>> ID already exists in codelist...'' []]))"
  using assms
  by (simp add: add_single_item_to_codelist_def io_defs Let_def codelist_request_def)

theorem existing_item_no_post_witness:
  "bind_io (add_single_item_to_codelist (env0 (always codelist_inx_response)) p0 ''CL_REF_AREA''
              ''INX'' ''Not classified'' ''WB'' ''MERGE'')
     (\<lambda>_. add_single_item_to_codelist (env0 (always codelist_inx_response)) p0 ''CL_REF_AREA''
              ''INX'' ''Not classified'' ''WB'' ''MERGE'') []
   = (Inr True,
      [Request (codelist_request p0 ''WB'' ''CL_REF_AREA''),
       Log ''>>>>>>>>> ID already exists in codelist...'' [],
       Request (codelist_request p0 ''WB'' ''CL_REF_AREA''),
       Log ''>>>>>>>>> ID already exists in codelist...'' []])"
  using existing_item_no_post [of "env0 (always codelist_inx_response)" "[]" p0 "''WB''"
      "''CL_REF_AREA''" codelist_inx "[JStr ''INX'']" "''INX''" "''Not classified''" "''MERGE''"]
    existing_list_inx
  by (simp add: env0_def always_def codelist_inx_response_def json_response_def)

lemma existing_list_shape:
  assumes "existing_list req = Inr ids"
  shows "\<exists>kvs ikvs cs items. req = JObj kvs \<and> map_of kvs ''Codelist'' = Some (JArr (JObj ikvs # cs))
           \<and> map_of ikvs ''items'' = Some items"
proof (cases req)
  case (JObj kvs)
  show ?thesis
  proof (cases "map_of kvs ''Codelist''")
    case None
    with JObj assms show ?thesis
      by (simp add: existing_list_def codelist_items_def bind_e_def)
  next
    case (Some cl)
    show ?thesis
    proof (cases cl)
      case (JArr xs)
      show ?thesis
      proof (cases xs)
        case Nil
        with JObj Some JArr assms show ?thesis
          by (simp add: existing_list_def codelist_items_def bind_e_def seq_index_def)
      next
        case (Cons c0 cs)
        show ?thesis
        proof (cases c0)
          case inner: (JObj ikvs)
          with JObj Some JArr Cons assms show ?thesis
            by (cases "map_of ikvs ''items''")
               (simp_all add: existing_list_def codelist_items_def bind_e_def seq_index_def)
        qed (use JObj Some JArr Cons assms in
              \<open>simp_all add: existing_list_def codelist_items_def bind_e_def seq_index_def\<close>)
      qed
    next
      case (JStr s)
      with JObj Some assms show ?thesis
        by (auto simp add: existing_list_def codelist_items_def bind_e_def split: sum.splits)
    qed (use JObj Some assms in
          \<open>simp_all add: existing_list_def codelist_items_def bind_e_def\<close>)
  qed
qed (use assms in \<open>simp_all add: existing_list_def codelist_items_def bind_e_def\<close>)

text \<open>
  C5. The codelist request is answered with JSON whose item ids can be read and do not
  have \<open>item_id\<close> among them. Then the fetched JSON is an object whose \<open>Codelist\<close> is
  a list with an object first, and the second request of the call is a POST to the
  items-add endpoint: its headers are those that \<open>fmr_auth\<close> returns for the
  credentials, with \<open>ACTION\<close> set to the action mode after them, its body is the fetched object in which the \<open>items\<close> of
  \<open>Codelist[0]\<close> are replaced by the one item with the id \<open>item_id\<close> and the English
  name \<open>item_description\<close>.
\<close>

theorem new_item_post:
  assumes "json_body (server E tr (codelist_request p agency' codelist_id)) = Some req"
    and "existing_list req = Inr ids"
    and "JStr item_id \<notin> set ids"
  shows "\<exists>hdrs kvs ikvs cs rest.
           fmr_auth p (code_points (fmr_user E)) (code_points (fmr_password E)) = Inr hdrs
         \<and> req = JObj kvs \<and> map_of kvs ''Codelist'' = Some (JArr (JObj ikvs # cs))
         \<and> snd (add_single_item_to_codelist E p codelist_id item_id item_description
                   agency' action tr)
             = tr @ [Request (codelist_request p agency' codelist_id),
                     Request (POST_json (url p @ items_add_item_endpoint p)
                        (hdrs @ [(''ACTION'', action)])
                        (JObj (dict_set kvs ''Codelist''
                           (JArr (JObj (dict_set ikvs ''items''
                              (JArr [JObj [(''id'', JStr item_id),
                                           (''names'', JArr [JObj [(''locale'', JStr ''en''),
                                              (''value'', JStr item_description)]])]])) # cs)))))]
                  @ rest"
proof -
  from existing_list_shape [OF assms(2)] obtain kvs ikvs cs items where
    shape: "req = JObj kvs" "map_of kvs ''Codelist'' = Some (JArr (JObj ikvs # cs))"
      "map_of ikvs ''items'' = Some items"
    by blast
  have upd: "set_codelist0_items req (JArr [temp_payload item_id item_description]) =
      Inr (JObj (dict_set kvs ''Codelist''
                           (JArr (JObj (dict_set ikvs ''items''
                              (JArr [temp_payload item_id item_description])) # cs))))"
    using shape by (simp add: set_codelist0_items_def bind_e_def seq_index_def)
  have hdrs: "dict_set
         [(''Authorization'',
           ''Basic '' @ b64encode (utf8_bytes (code_points (fmr_user E) @ [58]
                                      @ code_points (fmr_password E)))),
          (''Content-Type'', ''application/json'')] ''ACTION'' action
      = [(''Authorization'',
           ''Basic '' @ b64encode (utf8_bytes (code_points (fmr_user E) @ [58]
                                      @ code_points (fmr_password E)))),
          (''Content-Type'', ''application/json'')] @ [(''ACTION'', action)]"
    by (simp add: dict_set_def)
  show ?thesis
    using assms shape(1,2) upd hdrs
    by (auto simp add: add_single_item_to_codelist_def io_defs Let_def add_item_request_def
        temp_payload_def split: sum.splits prod.splits)
qed

theorem new_item_post_witness:
  "snd (add_single_item_to_codelist (env0 (always codelist_inx_response)) p0 ''CL_REF_AREA''
          ''HIC'' ''High income'' ''WB'' ''MERGE'' [])
   = [Request (codelist_request p0 ''WB'' ''CL_REF_AREA''),
      Request (POST_json ''http://localhost:8080/ws/secure/sdmxapi/rest''
        [(''Authorization'', ''Basic YWRtaW46c2VjcmV0''), (''Content-Type'', ''application/json''),
         (''ACTION'', ''MERGE'')]
        (JObj [(''Codelist'', JArr [JObj [(''items'', JArr [
           JObj [(''id'', JStr ''HIC''),
                 (''names'', JArr [JObj [(''locale'', JStr ''en''),
                                         (''value'', JStr ''High income'')]])]])]])])),
      Log ''>>>>>>>>> %s'' [codelist_inx]]"
proof -
  have post: "snd (add_single_item_to_codelist (env0 (always codelist_inx_response)) p0
                ''CL_REF_AREA'' ''HIC'' ''High income'' ''WB'' ''MERGE'' [])
     = [Request (codelist_request p0 ''WB'' ''CL_REF_AREA''),
      Request (POST_json ''http://localhost:8080/ws/secure/sdmxapi/rest''
        [(''Authorization'', ''Basic YWRtaW46c2VjcmV0''), (''Content-Type'', ''application/json''),
         (''ACTION'', ''MERGE'')]
        (JObj [(''Codelist'', JArr [JObj [(''items'', JArr [
           JObj [(''id'', JStr ''HIC''),
                 (''names'', JArr [JObj [(''locale'', JStr ''en''),
                                         (''value'', JStr ''High income'')]])]])]])]))]
       @ drop 2 (snd (add_single_item_to_codelist (env0 (always codelist_inx_response)) p0
                ''CL_REF_AREA'' ''HIC'' ''High income'' ''WB'' ''MERGE'' []))"
    using new_item_post [of "env0 (always codelist_inx_response)" "[]" p0 "''WB''"
      "''CL_REF_AREA''" codelist_inx "[JStr ''INX'']" "''HIC''" "''High income''" "''MERGE''"]
      existing_list_inx
    by (auto simp add: env0_def always_def codelist_inx_response_def json_response_def
        codelist_inx_def p0_def code_points_admin_user code_points_secret_password
        fmr_auth_admin_secret dict_set_def)
  have rest: "drop 2 (snd (add_single_item_to_codelist (env0 (always codelist_inx_response)) p0
                ''CL_REF_AREA'' ''HIC'' ''High income'' ''WB'' ''MERGE'' []))
      = [Log ''>>>>>>>>> %s'' [codelist_inx]]"
    by (simp add: add_single_item_to_codelist_def io_defs Let_def env0_def always_def
        codelist_inx_response_def json_response_def existing_list_def codelist_items_def
        set_codelist0_items_def codelist_inx_def bind_e_def seq_index_def dict_set_def)
  from post rest show ?thesis by simp
qed

text \<open>
  C6, at a failing input. Every request is answered with a page that is not JSON and
  contains \<open>Blocked\<close>. The handler sends the GET again and calls \<open>json()\<close> on the
  answer, which raises \<open>JSONDecodeError\<close> inside the handler: the call logs nothing and
  does not return \<open>True\<close>.
\<close>

theorem blocked_fetch_raises:
  "json_body blocked_response = None
   \<and> contains ''Blocked'' (resp_text blocked_response)
   \<and> add_single_item_to_codelist (env0 (always blocked_response)) p0 ''CL_REF_AREA''
        ''HIC'' ''High income'' ''WB'' ''MERGE'' []
      = (Inl JSONDecodeError,
         [Request (codelist_request p0 ''WB'' ''CL_REF_AREA''),
          Request (codelist_request p0 ''WB'' ''CL_REF_AREA'')])"
  by (simp add: add_single_item_to_codelist_def io_defs Let_def env0_def always_def
      blocked_response_def text_response_def)

text \<open>
  The same for every registry: when the first answer is not JSON, the call sends the GET
  twice and ends in an exception, \<open>JSONDecodeError\<close> when the second answer is not JSON
  either, \<open>AttributeError\<close> at \<open>req.text\<close> when it is.
\<close>

lemma fetch_not_json_never_returns:
  assumes "json_body (server E tr (codelist_request p agency' codelist_id)) = None"
  shows "snd (add_single_item_to_codelist E p codelist_id item_id item_description
                 agency' action tr)
           = tr @ [Request (codelist_request p agency' codelist_id),
                   Request (codelist_request p agency' codelist_id)]
         \<and> (fst (add_single_item_to_codelist E p codelist_id item_id item_description
                 agency' action tr) = Inl JSONDecodeError
            \<or> fst (add_single_item_to_codelist E p codelist_id item_id item_description
                 agency' action tr) = Inl AttributeError)"
  using assms
  by (auto simp add: add_single_item_to_codelist_def io_defs Let_def getattr_text_def
      split: option.splits)

section \<open>The batch writer\<close>

text \<open>
  C7, as the claim states it, fails: the registry answers every request with the JSON
  object \<open>{}\<close>. For a list of two items the first call of the single-item writer ends
  in \<open>KeyError\<close> at \<open>req['Codelist']\<close>; nothing in the loop catches it, so the batch
  writer ends in \<open>KeyError\<close> too, after one GET, without handling the second item and
  without returning \<open>True\<close>.
\<close>

theorem batch_stops_at_exception:
  "add_items_to_codelist (env0 (always empty_object_response)) p0 ''CL_REF_AREA'' two_items
     ''WB'' ''MERGE'' []
   = (Inl KeyError,
      [Log ''>>>>> Adding items to codelist %s...'' [JStr ''CL_REF_AREA''],
       Log ''>>>>>>> Item: %s'' [JStr ''A''],
       Request (codelist_request p0 ''WB'' ''CL_REF_AREA'')])"
  by (simp add: add_items_to_codelist_def add_single_item_to_codelist_def io_defs Let_def
      env0_def always_def empty_object_response_def json_response_def two_items_def
      existing_list_def codelist_items_def bind_e_def)

text \<open>
  A call of the single-item writer comes back with \<open>True\<close>, having sent one GET, when
  the codelist request is answered with a codelist whose item ids can be read and any
  POST is answered with \<open>Success\<close> or with JSON.
\<close>

lemma set_codelist0_items_succeeds:
  assumes "existing_list req = Inr ids"
  shows "\<exists>req'. set_codelist0_items req v = Inr req'"
proof -
  from existing_list_shape [OF assms] obtain kvs ikvs cs items where
    "req = JObj kvs" "map_of kvs ''Codelist'' = Some (JArr (JObj ikvs # cs))"
    by blast
  then show ?thesis
    by (simp add: set_codelist0_items_def bind_e_def seq_index_def)
qed

lemma single_call_returns:
  assumes "fetch_ok (server E tr (codelist_request p agency' codelist_id))"
    and "\<forall>tr' h b. post_ok (server E tr' (add_item_request p h b))"
  shows "\<exists>evs. add_single_item_to_codelist E p codelist_id item_id item_description agency'
                  action tr
                = (Inr True, tr @ Request (codelist_request p agency' codelist_id) # evs)
              \<and> item_marks evs = []"
proof -
  from assms(1) obtain req ids where
    req: "json_body (server E tr (codelist_request p agency' codelist_id)) = Some req"
    and ids: "existing_list req = Inr ids"
    by (auto simp add: fetch_ok_def split: option.splits sum.splits)
  show ?thesis
  proof (cases "JStr item_id \<in> set ids")
    case True
    with req ids show ?thesis
      by (simp add: add_single_item_to_codelist_def io_defs Let_def item_marks_def)
  next
    case False
    from set_codelist0_items_succeeds [OF ids] obtain req' where
      upd: "set_codelist0_items req (JArr [temp_payload item_id item_description]) = Inr req'"
      by blast
    define hdrs where
      "hdrs = dict_set
         [(''Authorization'',
           ''Basic '' @ b64encode (utf8_bytes (code_points (fmr_user E) @ [58]
                                      @ code_points (fmr_password E)))),
          (''Content-Type'', ''application/json'')] ''ACTION'' action"
    define response where
      "response = server E (tr @ [Request (codelist_request p agency' codelist_id)])
                    (add_item_request p hdrs req')"
    from assms(2) have ok: "post_ok response"
      by (simp add: response_def)
    show ?thesis
    proof (cases "contains ''Success'' (resp_text response)")
      case True
      with req ids False upd show ?thesis
        unfolding response_def hdrs_def
        by (simp add: add_single_item_to_codelist_def io_defs Let_def item_marks_def
            add_item_request_def)
    next
      case nosucc: False
      with ok obtain j where "json_body response = Some j"
        by (auto simp add: post_ok_def)
      with req ids False upd nosucc show ?thesis
        unfolding response_def hdrs_def
        by (simp add: add_single_item_to_codelist_def io_defs Let_def item_marks_def
            add_item_request_def)
    qed
  qed
qed

lemma add_items_loop_returns:
  assumes "\<forall>tr'. fetch_ok (server E tr' (codelist_request p agency' codelist_id))"
    and "\<forall>tr' h b. post_ok (server E tr' (add_item_request p h b))"
  shows "\<exists>evs. add_items_loop E p codelist_id agency' action item_list tr = (Inr (), tr @ evs)
           \<and> item_marks evs =
               concat (map (\<lambda>it. [Log ''>>>>>>> Item: %s'' [JStr (ident it)],
                                   Request (codelist_request p agency' codelist_id)]) item_list)"
proof (induction item_list arbitrary: tr)
  case Nil
  show ?case by (simp add: ret_def item_marks_def)
next
  case (Cons it rest)
  let ?tr1 = "tr @ [Log ''>>>>>>> Item: %s'' [JStr (ident it)]]"
  from assms(1) have "fetch_ok (server E ?tr1 (codelist_request p agency' codelist_id))"
    by blast
  from single_call_returns [OF this assms(2)] obtain evs1 where
    one: "add_single_item_to_codelist E p codelist_id (ident it) (description it) agency'
            action ?tr1
          = (Inr True, ?tr1 @ Request (codelist_request p agency' codelist_id) # evs1)"
    and m1: "item_marks evs1 = []"
    by blast
  from Cons.IH [of "?tr1 @ Request (codelist_request p agency' codelist_id) # evs1"]
  obtain evs2 where
    two: "add_items_loop E p codelist_id agency' action rest
            (?tr1 @ Request (codelist_request p agency' codelist_id) # evs1)
          = (Inr (), (?tr1 @ Request (codelist_request p agency' codelist_id) # evs1) @ evs2)"
    and m2: "item_marks evs2 =
               concat (map (\<lambda>it. [Log ''>>>>>>> Item: %s'' [JStr (ident it)],
                                   Request (codelist_request p agency' codelist_id)]) rest)"
    by blast
  let ?evs = "Log ''>>>>>>> Item: %s'' [JStr (ident it)]
              # Request (codelist_request p agency' codelist_id) # evs1 @ evs2"
  have "add_items_loop E p codelist_id agency' action (it # rest) tr = (Inr (), tr @ ?evs)"
    using one two by (simp add: bind_io_def emit_def)
  moreover have "item_marks ?evs =
      concat (map (\<lambda>it. [Log ''>>>>>>> Item: %s'' [JStr (ident it)],
                          Request (codelist_request p agency' codelist_id)]) (it # rest))"
    using m1 m2 by (simp add: item_marks_def codelist_request_def)
  ultimately show ?case by blast
qed

lemma gets_of_item_marks: "filter is_get (item_marks evs) = filter is_get evs"
  by (induction evs) (auto simp add: item_marks_def)

lemma gets_per_item:
  "length (filter is_get (concat (map (\<lambda>it. [Log f [JStr (ident it)],
                                   Request (codelist_request p agency' codelist_id)]) item_list)))
   = length item_list"
  by (induction item_list) (simp_all add: codelist_request_def)

text \<open>
  The batch writer on a list and on its extensions: the loop on \<open>xs @ ys\<close> is the loop
  on \<open>xs\<close> followed, when that came back, by the loop on \<open>ys\<close>.
\<close>

lemma add_items_loop_append:
  "add_items_loop E p codelist_id agency' action (xs @ ys) tr =
     bind_io (add_items_loop E p codelist_id agency' action xs)
       (\<lambda>_. add_items_loop E p codelist_id agency' action ys) tr"
proof (induction xs arbitrary: tr)
  case Nil
  show ?case by (simp add: bind_io_def ret_def)
next
  case (Cons it xs)
  show ?case
    by (simp add: bind_io_def emit_def Cons.IH split: prod.splits sum.splits)
qed

lemma batch_empty:
  "add_items_to_codelist E p codelist_id [] agency' action tr =
     (Inr True, tr @ [Log ''>>>>> Adding items to codelist %s...'' [JStr codelist_id]])"
  by (simp add: add_items_to_codelist_def bind_io_def emit_def ret_def)

lemma batch_next_item:
  assumes "add_items_to_codelist E p codelist_id its agency' action tr = (Inr b, t)"
  shows "add_items_to_codelist E p codelist_id (its @ [it]) agency' action tr =
           (case add_single_item_to_codelist E p codelist_id (ident it) (description it)
                   agency' action (t @ [Log ''>>>>>>> Item: %s'' [JStr (ident it)]]) of
              (Inl e, t') \<Rightarrow> (Inl e, t')
            | (Inr r, t') \<Rightarrow> (Inr True, t'))"
  using assms
  by (auto simp add: add_items_to_codelist_def add_items_loop_append bind_io_def emit_def ret_def
      split: prod.splits sum.splits)

lemma batch_exception_ends:
  assumes "add_items_to_codelist E p codelist_id its agency' action tr = (Inl e, t)"
  shows "add_items_to_codelist E p codelist_id (its @ later) agency' action tr = (Inl e, t)"
  using assms
  by (auto simp add: add_items_to_codelist_def add_items_loop_append bind_io_def emit_def ret_def
      split: prod.splits sum.splits)

lemma batch_returns:
  assumes "\<forall>tr'. fetch_ok (server E tr' (codelist_request p agency' codelist_id))"
    and "\<forall>tr' h b. post_ok (server E tr' (add_item_request p h b))"
  shows "\<exists>evs. add_items_to_codelist E p codelist_id item_list agency' action tr
                = (Inr True,
                   tr @ Log ''>>>>> Adding items to codelist %s...'' [JStr codelist_id] # evs)
           \<and> item_marks evs =
               concat (map (\<lambda>it. [Log ''>>>>>>> Item: %s'' [JStr (ident it)],
                                   Request (codelist_request p agency' codelist_id)]) item_list)
           \<and> length (filter is_get evs) = length item_list"
proof -
  from add_items_loop_returns [OF assms,
      of action item_list "tr @ [Log ''>>>>> Adding items to codelist %s...'' [JStr codelist_id]]"]
  obtain evs where
    run: "add_items_loop E p codelist_id agency' action item_list
            (tr @ [Log ''>>>>> Adding items to codelist %s...'' [JStr codelist_id]])
          = (Inr (), (tr @ [Log ''>>>>> Adding items to codelist %s...'' [JStr codelist_id]]) @ evs)"
    and marks: "item_marks evs =
               concat (map (\<lambda>it. [Log ''>>>>>>> Item: %s'' [JStr (ident it)],
                                   Request (codelist_request p agency' codelist_id)]) item_list)"
    by blast
  have "length (filter is_get evs) = length item_list"
    using gets_of_item_marks [of evs] gets_per_item [of "''>>>>>>> Item: %s''" p agency' codelist_id item_list]
    by (simp add: marks)
  moreover have "add_items_to_codelist E p codelist_id item_list agency' action tr
                = (Inr True,
                   tr @ Log ''>>>>> Adding items to codelist %s...'' [JStr codelist_id] # evs)"
    using run by (simp add: add_items_to_codelist_def bind_io_def emit_def ret_def)
  ultimately show ?thesis using marks by blast
qed

lemma fetch_ok_inx: "fetch_ok codelist_inx_response"
  by (simp add: fetch_ok_def codelist_inx_response_def json_response_def existing_list_inx)

lemma post_ok_inx: "post_ok codelist_inx_response"
  by (simp add: post_ok_def codelist_inx_response_def json_response_def)

lemma batch_two_items_trace:
  "snd (add_items_to_codelist (env0 (always codelist_inx_response)) p0 ''CL_REF_AREA'' two_items
          ''WB'' ''MERGE'' [])
   = [Log ''>>>>> Adding items to codelist %s...'' [JStr ''CL_REF_AREA''],
      Log ''>>>>>>> Item: %s'' [JStr ''A''],
      Request (codelist_request p0 ''WB'' ''CL_REF_AREA''),
      Request (add_item_request p0
        [(''Authorization'', ''Basic YWRtaW46c2VjcmV0''), (''Content-Type'', ''application/json''),
         (''ACTION'', ''MERGE'')]
        (JObj [(''Codelist'', JArr [JObj [(''items'', JArr [temp_payload ''A'' ''first''])]])])),
      Log ''>>>>>>>>> %s'' [codelist_inx],
      Log ''>>>>>>> Item: %s'' [JStr ''B''],
      Request (codelist_request p0 ''WB'' ''CL_REF_AREA''),
      Request (add_item_request p0
        [(''Authorization'', ''Basic YWRtaW46c2VjcmV0''), (''Content-Type'', ''application/json''),
         (''ACTION'', ''MERGE'')]
        (JObj [(''Codelist'', JArr [JObj [(''items'', JArr [temp_payload ''B'' ''second''])]])])),
      Log ''>>>>>>>>> %s'' [codelist_inx]]"
  by (simp add: add_items_to_codelist_def add_single_item_to_codelist_def io_defs Let_def
      env0_def always_def codelist_inx_response_def json_response_def two_items_def
      existing_list_def codelist_items_def set_codelist0_items_def codelist_inx_def bind_e_def
      seq_index_def dict_set_def code_points_admin_user code_points_secret_password
      fmr_auth_admin_secret admin_secret_bytes b64_char_def b64_alphabet_def
      add_item_request_def temp_payload_def)

text \<open>
  C7, amended. \<open>add_items_to_codelist\<close> logs its first record and invokes the
  single-item writer once for each item, in the order of the list, each call after the
  item's log record on the trace that the calls before it have left: on a list extended
  by one item it does what it does on the list and then, if that came back, what the
  single-item writer does for the new item. An exception of a call of the single-item
  writer is the outcome of the batch, whatever items follow. When every codelist request
  is answered with a codelist whose item ids can be read, and every POST with a text that
  contains \<open>Success\<close> or with JSON, it returns \<open>True\<close> for every list of items, and
  after its first log record the item records and the GETs of the trace alternate, one
  pair for each item in the order of the list: it has sent exactly as many GETs as there
  are items.
\<close>

theorem batch_one_get_per_item:
  "add_items_to_codelist E p codelist_id [] agency' action tr =
     (Inr True, tr @ [Log ''>>>>> Adding items to codelist %s...'' [JStr codelist_id]])
   \<and> (\<forall>b t. add_items_to_codelist E p codelist_id its agency' action tr = (Inr b, t) \<longrightarrow>
          add_items_to_codelist E p codelist_id (its @ [it]) agency' action tr =
            (case add_single_item_to_codelist E p codelist_id (ident it) (description it)
                    agency' action (t @ [Log ''>>>>>>> Item: %s'' [JStr (ident it)]]) of
               (Inl e, t') \<Rightarrow> (Inl e, t')
             | (Inr r, t') \<Rightarrow> (Inr True, t')))
   \<and> (\<forall>e t. add_items_to_codelist E p codelist_id its agency' action tr = (Inl e, t) \<longrightarrow>
          add_items_to_codelist E p codelist_id (its @ later) agency' action tr = (Inl e, t))
   \<and> ((\<forall>tr'. fetch_ok (server E tr' (codelist_request p agency' codelist_id)))
        \<and> (\<forall>tr' h b. post_ok (server E tr' (add_item_request p h b))) \<longrightarrow>
        (\<exists>evs. add_items_to_codelist E p codelist_id item_list agency' action tr
                = (Inr True,
                   tr @ Log ''>>>>> Adding items to codelist %s...'' [JStr codelist_id] # evs)
           \<and> item_marks evs =
               concat (map (\<lambda>it. [Log ''>>>>>>> Item: %s'' [JStr (ident it)],
                                   Request (codelist_request p agency' codelist_id)]) item_list)
           \<and> length (filter is_get evs) = length item_list))"
  using batch_empty [of E p codelist_id agency' action tr]
    batch_next_item [of E p codelist_id its agency' action tr _ _ it]
    batch_exception_ends [of E p codelist_id its agency' action tr _ _ later]
    batch_returns [of E p agency' codelist_id item_list action tr]
  by blast

theorem batch_one_get_per_item_witness:
  "fst (add_items_to_codelist (env0 (always codelist_inx_response)) p0 ''CL_REF_AREA'' two_items
          ''WB'' ''MERGE'' []) = Inr True
   \<and> length (filter is_get
        (snd (add_items_to_codelist (env0 (always codelist_inx_response)) p0 ''CL_REF_AREA''
                two_items ''WB'' ''MERGE'' []))) = 2
   \<and> snd (add_items_to_codelist (env0 (always codelist_inx_response)) p0 ''CL_REF_AREA'' two_items
          ''WB'' ''MERGE'' [])
   = [Log ''>>>>> Adding items to codelist %s...'' [JStr ''CL_REF_AREA''],
      Log ''>>>>>>> Item: %s'' [JStr ''A''],
      Request (codelist_request p0 ''WB'' ''CL_REF_AREA''),
      Request (add_item_request p0
        [(''Authorization'', ''Basic YWRtaW46c2VjcmV0''), (''Content-Type'', ''application/json''),
         (''ACTION'', ''MERGE'')]
        (JObj [(''Codelist'', JArr [JObj [(''items'', JArr [temp_payload ''A'' ''first''])]])])),
      Log ''>>>>>>>>> %s'' [codelist_inx],
      Log ''>>>>>>> Item: %s'' [JStr ''B''],
      Request (codelist_request p0 ''WB'' ''CL_REF_AREA''),
      Request (add_item_request p0
        [(''Authorization'', ''Basic YWRtaW46c2VjcmV0''), (''Content-Type'', ''application/json''),
         (''ACTION'', ''MERGE'')]
        (JObj [(''Codelist'', JArr [JObj [(''items'', JArr [temp_payload ''B'' ''second''])]])])),
      Log ''>>>>>>>>> %s'' [codelist_inx]]"
proof -
  have a: "\<forall>tr'. fetch_ok (server (env0 (always codelist_inx_response)) tr'
                    (codelist_request p0 ''WB'' ''CL_REF_AREA''))"
    by (simp add: env0_def always_def fetch_ok_inx)
  have b: "\<forall>tr' h b. post_ok (server (env0 (always codelist_inx_response)) tr'
                    (add_item_request p0 h b))"
    by (simp add: env0_def always_def post_ok_inx)
  from batch_one_get_per_item [of "env0 (always codelist_inx_response)" p0 "''CL_REF_AREA''"
      "''WB''" "''MERGE''" "[]" "[]" "\<lparr>ident = ''A'', description = ''first''\<rparr>" "[]"
      two_items] a b
  have "fst (add_items_to_codelist (env0 (always codelist_inx_response)) p0 ''CL_REF_AREA''
          two_items ''WB'' ''MERGE'' []) = Inr True
   \<and> length (filter is_get
        (snd (add_items_to_codelist (env0 (always codelist_inx_response)) p0 ''CL_REF_AREA''
                two_items ''WB'' ''MERGE'' []))) = 2"
    by (auto simp add: two_items_def)
  with batch_two_items_trace show ?thesis by simp
qed

section \<open>The codelist reader\<close>

text \<open>Equality of keys is an equivalence; a store is seen by the lookups after it.\<close>

lemma key_eq_refl: "key_eq a a"
  by (cases a) simp_all

lemma key_eq_sym: "key_eq a b \<Longrightarrow> key_eq b a"
  by (cases a; cases b) (auto split: if_splits)

lemma key_eq_trans: "key_eq a b \<Longrightarrow> key_eq b c \<Longrightarrow> key_eq a c"
  by (cases a; cases b; cases c) (auto split: if_splits)

lemma key_eq_left: "key_eq k0 k \<Longrightarrow> key_eq k0 k' = key_eq k k'"
  by (meson key_eq_sym key_eq_trans)

lemma dict_lookup_set:
  "dict_lookup (dict_set_by key_eq d k v) k' =
     (if key_eq k k' then Some v else dict_lookup d k')"
proof (induction d)
  case Nil
  show ?case by simp
next
  case (Cons kv d)
  obtain k0 v0 where kv: "kv = (k0, v0)" by (cases kv)
  show ?case
  proof (cases "key_eq k0 k")
    case True
    then show ?thesis by (simp add: kv key_eq_left)
  next
    case False
    then have "\<not> (key_eq k0 k' \<and> key_eq k k')"
      by (meson key_eq_sym key_eq_trans)
    with False Cons show ?thesis by (auto simp add: kv)
  qed
qed

lemma dict_lookup_append:
  "dict_lookup (d @ d') k = (case dict_lookup d k of Some v \<Rightarrow> Some v | None \<Rightarrow> dict_lookup d' k)"
  by (induction d) auto

lemma dict_set_new:
  "list_all (\<lambda>k'. \<not> key_eq k' k) (map fst d) \<Longrightarrow> dict_set_by key_eq d k v = d @ [(k, v)]"
  by (induction d) auto

lemma ref_area_loop_lookup:
  assumes "collect ref_area_entry economies = Inr pairs"
    and "list_all (\<lambda>kv. hashable (fst kv)) pairs"
  shows "\<exists>d'. ref_area_loop economies d = Inr d'
           \<and> (\<forall>k. dict_lookup d' k =
                 (case dict_lookup (rev pairs) k of Some v \<Rightarrow> Some v | None \<Rightarrow> dict_lookup d k))"
  using assms
proof (induction economies arbitrary: d pairs)
  case Nil
  then show ?case by simp
next
  case (Cons economy rest)
  from Cons.prems(1) obtain k v ps where
    entry: "ref_area_entry economy = Inr (k, v)"
    and rest: "collect ref_area_entry rest = Inr ps"
    and pairs: "pairs = (k, v) # ps"
    by (auto split: sum.splits)
  from Cons.prems(2) pairs have hk: "hashable k" and hps: "list_all (\<lambda>kv. hashable (fst kv)) ps"
    by simp_all
  from Cons.IH [OF rest hps, of "dict_set_by key_eq d k v"] obtain d' where
    run: "ref_area_loop rest (dict_set_by key_eq d k v) = Inr d'"
    and look: "\<forall>k'. dict_lookup d' k' =
                 (case dict_lookup (rev ps) k' of Some v \<Rightarrow> Some v
                  | None \<Rightarrow> dict_lookup (dict_set_by key_eq d k v) k')"
    by blast
  have "ref_area_loop (economy # rest) d = Inr d'"
    using entry hk run by (simp add: pydict_set_def)
  moreover have "\<forall>k'. dict_lookup d' k' =
                 (case dict_lookup (rev pairs) k' of Some v \<Rightarrow> Some v | None \<Rightarrow> dict_lookup d k')"
    using look by (auto simp add: pairs dict_lookup_append dict_lookup_set split: option.splits)
  ultimately show ?case by blast
qed

lemma keys_distinct_before:
  "keys_distinct (xs @ k # ys) \<Longrightarrow> list_all (\<lambda>k'. \<not> key_eq k' k) xs"
  by (induction xs) (auto dest: key_eq_sym)

lemma ref_area_loop_distinct:
  assumes "collect ref_area_entry economies = Inr pairs"
    and "list_all (\<lambda>kv. hashable (fst kv)) pairs"
    and "keys_distinct (map fst d @ map fst pairs)"
  shows "ref_area_loop economies d = Inr (d @ pairs)"
  using assms
proof (induction economies arbitrary: d pairs)
  case Nil
  then show ?case by simp
next
  case (Cons economy rest)
  from Cons.prems(1) obtain k v ps where
    entry: "ref_area_entry economy = Inr (k, v)"
    and rest: "collect ref_area_entry rest = Inr ps"
    and pairs: "pairs = (k, v) # ps"
    by (auto split: sum.splits)
  from Cons.prems(2) pairs have hk: "hashable k" and hps: "list_all (\<lambda>kv. hashable (fst kv)) ps"
    by simp_all
  have new: "list_all (\<lambda>k'. \<not> key_eq k' k) (map fst d)"
    using Cons.prems(3) pairs by (simp add: keys_distinct_before)
  have dist: "keys_distinct (map fst (d @ [(k, v)]) @ map fst ps)"
    using Cons.prems(3) pairs by simp
  from Cons.IH [OF rest hps dist] entry hk new show ?case
    by (simp add: pydict_set_def dict_set_new pairs)
qed

text \<open>The reader in one step: the log record, the GET, then exit or the loop.\<close>

lemma get_ref_area_codelist_unfold:
  "get_ref_area_codelist E p tr =
     (case json_body (server E (tr @ [Log ''>>>>> Getting values for the codelist %s...''
                                       [JStr (codelist_endpoint_ref_area p)]])
                        (ref_area_request p)) of
        None \<Rightarrow>
          (Inl SystemExit,
           tr @ [Log ''>>>>> Getting values for the codelist %s...''
                   [JStr (codelist_endpoint_ref_area p)],
                 Request (ref_area_request p), Print ''FMR instance not accessible!''])
      | Some codelist_dict \<Rightarrow>
          (bind_e (codelist_items codelist_dict) (\<lambda>economies. ref_area_loop economies []),
           tr @ [Log ''>>>>> Getting values for the codelist %s...''
                   [JStr (codelist_endpoint_ref_area p)],
                 Request (ref_area_request p)]))"
  by (simp add: get_ref_area_codelist_def io_defs split: option.splits)

text \<open>
  C8, as the claim states it, fails: two items \<open>A\<close> and \<open>B\<close> of the codelist have
  the same first name \<open>X\<close>. The loop gives the pair \<open>(X, A)\<close> for the first item, and
  the second store overwrites it: the result is \<open>{"X": "B"}\<close>, which does not
  associate the name of the first item to its id.
\<close>

theorem shared_name_keeps_last:
  "ref_area_entry (JObj [(''id'', JStr ''A''), (''names'', JArr [JObj [(''value'', JStr ''X'')]])])
     = Inr (JStr ''X'', JStr ''A'')
   \<and> get_ref_area_codelist (env0 (always codelist_shared_name_response)) p0 []
     = (Inr [(JStr ''X'', JStr ''B'')],
        [Log ''>>>>> Getting values for the codelist %s...'' [JStr ''CL_REF_AREA''],
         Request (ref_area_request p0)])"
  by (simp add: get_ref_area_codelist_unfold env0_def always_def codelist_shared_name_response_def
      json_response_def codelist_shared_name_def codelist_items_def ref_area_entry_def
      bind_e_def seq_index_def pydict_set_def p0_def)

text \<open>
  C8, amended. The answer is JSON in which \<open>Codelist[0]['items']\<close> can be iterated,
  and every item has an \<open>id\<close> and a hashable \<open>names[0]['value']\<close>. Then
  \<open>get_ref_area_codelist\<close> returns a mapping that associates every such name value to
  the id of the last item that carries it, and has no other key. When no two items
  carry the same name, the mapping is the list of the pairs of name and id in the order
  of the items. For the response of the spec's example it is
  \<open>{"Not classified": "INX"}\<close>.
\<close>

theorem ref_area_mapping:
  assumes "json_body (server E (tr @ [Log ''>>>>> Getting values for the codelist %s...''
                                        [JStr (codelist_endpoint_ref_area p)]])
                        (ref_area_request p)) = Some codelist_dict"
    and "codelist_items codelist_dict = Inr economies"
    and "collect ref_area_entry economies = Inr pairs"
    and "list_all (\<lambda>kv. hashable (fst kv)) pairs"
  shows "\<exists>d. get_ref_area_codelist E p tr =
               (Inr d, tr @ [Log ''>>>>> Getting values for the codelist %s...''
                               [JStr (codelist_endpoint_ref_area p)],
                             Request (ref_area_request p)])
           \<and> (\<forall>k. dict_lookup d k = dict_lookup (rev pairs) k)
           \<and> (keys_distinct (map fst pairs) \<longrightarrow> d = pairs)"
proof -
  from ref_area_loop_lookup [OF assms(3,4), of "[]"] obtain d where
    run: "ref_area_loop economies [] = Inr d"
    and raw: "\<forall>k. dict_lookup d k =
                (case dict_lookup (rev pairs) k of Some v \<Rightarrow> Some v | None \<Rightarrow> dict_lookup [] k)"
    by blast
  have look: "\<forall>k. dict_lookup d k = dict_lookup (rev pairs) k"
    using raw by (simp split: option.splits)
  have "keys_distinct (map fst pairs) \<longrightarrow> d = pairs"
    using ref_area_loop_distinct [OF assms(3,4), of "[]"] run by simp
  moreover have "get_ref_area_codelist E p tr =
               (Inr d, tr @ [Log ''>>>>> Getting values for the codelist %s...''
                               [JStr (codelist_endpoint_ref_area p)],
                             Request (ref_area_request p)])"
    using assms(1,2) run by (simp add: get_ref_area_codelist_unfold bind_e_def)
  ultimately show ?thesis using look by blast
qed

theorem ref_area_mapping_witness:
  "get_ref_area_codelist (env0 (always codelist_inx_response)) p0 []
   = (Inr [(JStr ''Not classified'', JStr ''INX'')],
      [Log ''>>>>> Getting values for the codelist %s...'' [JStr ''CL_REF_AREA''],
       Request (ref_area_request p0)])"
  using ref_area_mapping [of "env0 (always codelist_inx_response)" "[]" p0 codelist_inx
      "[JObj [(''id'', JStr ''INX''), (''names'', JArr [JObj [(''value'', JStr ''Not classified'')]])]]"
      "[(JStr ''Not classified'', JStr ''INX'')]"]
  by (simp add: env0_def always_def codelist_inx_response_def json_response_def codelist_inx_def
      codelist_items_def ref_area_entry_def bind_e_def seq_index_def p0_def)

section \<open>Which operation ends the process\<close>

text \<open>
  A computation built from requests, log records and Python operations on JSON values
  never ends in \<open>SystemExit\<close>: only \<open>exit()\<close> raises it.
\<close>

lemma never_exits_ret: "never_exits (ret x)"
  by (simp add: never_exits_def ret_def)

lemma never_exits_raise: "e \<noteq> SystemExit \<Longrightarrow> never_exits (raise e)"
  by (simp add: never_exits_def raise_def)

lemma never_exits_emit: "never_exits (emit ev)"
  by (simp add: never_exits_def emit_def)

lemma never_exits_http: "never_exits (http E rq)"
  by (simp add: never_exits_def http_def)

lemma never_exits_lift: "r \<noteq> Inl SystemExit \<Longrightarrow> never_exits (lift_e r)"
  by (simp add: never_exits_def lift_e_def)

lemma never_exits_response_json: "never_exits (response_json r)"
  by (simp add: never_exits_def response_json_def lift_e_def split: option.splits)

lemma never_exits_open_rb: "never_exits (open_rb E path)"
  by (simp add: never_exits_def open_rb_def lift_e_def split: option.splits)

lemma never_exits_bind:
  "never_exits m \<Longrightarrow> (\<And>x. never_exits (f x)) \<Longrightarrow> never_exits (bind_io m f)"
  by (auto simp add: never_exits_def bind_io_def split: prod.splits sum.splits)
     (metis fst_conv)+

lemma never_exits_try:
  "never_exits m \<Longrightarrow> never_exits h \<Longrightarrow> never_exits (try_except m e h)"
  by (auto simp add: never_exits_def try_except_def split: prod.splits sum.splits)
     (metis fst_conv)+

lemma never_exits_if:
  "never_exits a \<Longrightarrow> never_exits b \<Longrightarrow> never_exits (if c then a else b)"
  by simp

lemmas never_exits_intros = never_exits_ret never_exits_raise never_exits_emit never_exits_http
  never_exits_lift never_exits_response_json never_exits_open_rb never_exits_bind
  never_exits_try never_exits_if

lemma bind_e_no_exit:
  "m \<noteq> Inl SystemExit \<Longrightarrow> (\<And>x. f x \<noteq> Inl SystemExit) \<Longrightarrow> bind_e m f \<noteq> Inl SystemExit"
  by (cases m) (simp_all add: bind_e_def)

lemma seq_index_no_exit: "seq_index xs i \<noteq> Inl SystemExit"
  by (simp add: seq_index_def)

lemma getitem_str_no_exit: "getitem_str v k \<noteq> Inl SystemExit"
  by (cases v) (simp_all split: option.splits)

lemma getitem_int_no_exit: "getitem_int v i \<noteq> Inl SystemExit"
  by (cases v) (simp_all add: bind_e_no_exit seq_index_no_exit)

lemma py_iter_no_exit: "py_iter v \<noteq> Inl SystemExit"
  by (cases v) simp_all

lemma py_keys_no_exit: "py_keys v \<noteq> Inl SystemExit"
  by (cases v) simp_all

lemma setitem_str_no_exit: "setitem_str w k v \<noteq> Inl SystemExit"
  by (cases w) simp_all

lemma collect_no_exit: "(\<And>x. f x \<noteq> Inl SystemExit) \<Longrightarrow> collect f xs \<noteq> Inl SystemExit"
  by (induction xs) (auto split: sum.splits)

lemmas no_exit_intros = bind_e_no_exit seq_index_no_exit getitem_str_no_exit getitem_int_no_exit
  py_iter_no_exit py_keys_no_exit setitem_str_no_exit collect_no_exit

lemma codelist_items_no_exit: "codelist_items v \<noteq> Inl SystemExit"
  unfolding codelist_items_def by (intro no_exit_intros)

lemma existing_list_no_exit: "existing_list req \<noteq> Inl SystemExit"
  unfolding existing_list_def by (intro no_exit_intros codelist_items_no_exit)

lemma set_codelist0_items_no_exit: "set_codelist0_items req v \<noteq> Inl SystemExit"
  unfolding set_codelist0_items_def by (intro no_exit_intros)

lemma getattr_text_no_exit: "getattr_text v \<noteq> Inl SystemExit"
  by (simp add: getattr_text_def)

lemma fmr_auth_no_exit: "fmr_auth p user password \<noteq> Inl SystemExit"
  by (simp add: fmr_auth_def utf8_encode_def bind_e_def Let_def)

lemma collect_errors_no_exit: "collect_errors v \<noteq> Inl SystemExit"
  unfolding collect_errors_def dataset_errors_def by (intro no_exit_intros)

lemma add_single_never_exits:
  "never_exits (add_single_item_to_codelist E p codelist_id item_id item_description agency' action)"
  unfolding add_single_item_to_codelist_def Let_def
  by (intro never_exits_intros existing_list_no_exit set_codelist0_items_no_exit
      getattr_text_no_exit fmr_auth_no_exit)

lemma add_items_loop_never_exits:
  "never_exits (add_items_loop E p codelist_id agency' action item_list)"
  by (induction item_list) (auto intro!: never_exits_intros add_single_never_exits)

lemma add_items_never_exits:
  "never_exits (add_items_to_codelist E p codelist_id item_list agency' action)"
  unfolding add_items_to_codelist_def
  by (intro never_exits_intros add_items_loop_never_exits)

lemma never_exits_case_option:
  "never_exits a \<Longrightarrow> (\<And>x. never_exits (f x)) \<Longrightarrow> never_exits (case v of None \<Rightarrow> a | Some x \<Rightarrow> f x)"
  by (cases v) simp_all

lemma validate_single_never_exits:
  "never_exits (validate_single_dataset_fmr E p filepath delimiter)"
  unfolding validate_single_dataset_fmr_def Let_def
  by (intro never_exits_intros never_exits_case_option getitem_str_no_exit py_keys_no_exit
      collect_errors_no_exit fmr_auth_no_exit) simp_all

lemma validate_loop_never_exits:
  "never_exits (validate_loop E p export_path delimiter filenames validated err)"
  by (induction filenames arbitrary: validated err)
     (auto intro!: never_exits_intros validate_single_never_exits)

lemma validate_datasets_never_exits:
  "never_exits (validate_datasets_fmr E p datasets folder_name boolean delimiter)"
  unfolding validate_datasets_fmr_def
  by (intro never_exits_intros validate_loop_never_exits)

text \<open>
  C9. When the answer to the codelist request is not valid JSON,
  \<open>get_ref_area_codelist\<close> prints \<open>FMR instance not accessible!\<close> and ends in
  \<open>SystemExit\<close>, the exit of the process: it returns no value and raises no other
  exception. No call of the single-item writer, the batch writer, the validator or the
  batch validator ends in \<open>SystemExit\<close>, whatever the registry answers.
\<close>

theorem exit_only_in_codelist_reader:
  "(json_body (server E (tr @ [Log ''>>>>> Getting values for the codelist %s...''
                                 [JStr (codelist_endpoint_ref_area p)]])
                 (ref_area_request p)) = None \<longrightarrow>
      get_ref_area_codelist E p tr =
        (Inl SystemExit,
         tr @ [Log ''>>>>> Getting values for the codelist %s...''
                 [JStr (codelist_endpoint_ref_area p)],
               Request (ref_area_request p), Print ''FMR instance not accessible!'']))
   \<and> fst (add_single_item_to_codelist E p codelist_id item_id item_description agency' action tr)
       \<noteq> Inl SystemExit
   \<and> fst (add_items_to_codelist E p codelist_id item_list agency' action tr) \<noteq> Inl SystemExit
   \<and> fst (validate_single_dataset_fmr E p filepath delimiter tr) \<noteq> Inl SystemExit
   \<and> fst (validate_datasets_fmr E p datasets folder_name boolean delimiter tr) \<noteq> Inl SystemExit"
  using add_single_never_exits [of E p codelist_id item_id item_description agency' action]
    add_items_never_exits [of E p codelist_id item_list agency' action]
    validate_single_never_exits [of E p filepath delimiter]
    validate_datasets_never_exits [of E p datasets folder_name boolean delimiter]
  by (simp add: never_exits_def get_ref_area_codelist_unfold)

theorem exit_only_in_codelist_reader_witness:
  "get_ref_area_codelist (env0 (always blocked_response)) p0 [] =
     (Inl SystemExit,
      [Log ''>>>>> Getting values for the codelist %s...'' [JStr ''CL_REF_AREA''],
       Request (ref_area_request p0), Print ''FMR instance not accessible!''])"
  using exit_only_in_codelist_reader [of "env0 (always blocked_response)" "[]" p0,
      THEN conjunct1]
  by (simp add: env0_def always_def blocked_response_def text_response_def p0_def)

end
